theory Spec2Isabelle
  imports Complex_Main "HOL-Library.Log_Nat"
begin

section \<open>Values exchanged with the outside world\<close>

text \<open>
  The estimator of \<^verbatim>\<open>lib/estimate.js\<close> talks to three HTTP endpoints and reads two
  environment variables. A JavaScript value that may be \<^verbatim>\<open>null\<close> or
  \<^verbatim>\<open>undefined\<close> is an \<open>option\<close> (\<open>None\<close> stands for both: the code
  never tells them apart on these fields), a price is a JavaScript number (an IEEE 754
  double, see below), a count or an identifier is an \<open>int\<close>. The fields of the objects
  that the endpoints return have the types that the code expects of them, or are missing.
\<close>

subsection \<open>JavaScript numbers\<close>

text \<open>
  A number is a finite double, given by its value, an infinity or NaN. The two zeros are
  one value here, and a division by zero is one by \<open>+0\<close>: the zeros differ in the sign
  of such a quotient only, and the code never divides by zero.
\<close>

datatype number = Finite rat | PosInfinity | NegInfinity | NaN

text \<open>The exponent of the binade of \<open>x \<noteq> 0\<close>: the \<open>e\<close> with
  \<open>2\<^sup>e \<le> \<bar>x\<bar> < 2\<^sup>e\<^sup>+\<^sup>1\<close>.\<close>

definition binade :: "rat \<Rightarrow> int" where
  "binade x = (if 1 \<le> \<bar>x\<bar> then bitlen \<lfloor>\<bar>x\<bar>\<rfloor> - 1 else - bitlen (\<lceil>1 / \<bar>x\<bar>\<rceil> - 1))"

text \<open>The distance between neighbouring doubles around \<open>x\<close>: 52 fraction bits,
  and a fixed step below the smallest normal number \<open>2\<^sup>-\<^sup>1\<^sup>0\<^sup>2\<^sup>2\<close>.\<close>

definition ulp :: "rat \<Rightarrow> rat" where
  "ulp x = 2 powi (max (binade x) (- 1022) - 52)"

text \<open>The nearest integer, a tie going to the even one.\<close>

definition round_ties_even :: "rat \<Rightarrow> int" where
  "round_ties_even y =
     (let f = \<lfloor>y\<rfloor>; d = y - of_int f
      in if d < 1 / 2 then f else if 1 / 2 < d then f + 1 else if even f then f else f + 1)"

text \<open>The double nearest to a rational number, as IEEE 754 rounds every exact result
  and as a number in a program text or in JSON is read: round to nearest, ties to even,
  and an infinity when the rounded value is beyond the largest double.\<close>

definition to_double :: "rat \<Rightarrow> number" where
  "to_double x =
     (if x = 0 then Finite 0
      else
        (let y = of_int (round_ties_even (x / ulp x)) * ulp x
         in if 2 ^ 1024 \<le> y then PosInfinity
            else if y \<le> - (2 ^ 1024) then NegInfinity
            else Finite y))"

text \<open>\<^verbatim>\<open>a * b\<close>, \<^verbatim>\<open>a / b\<close> and \<^verbatim>\<open>Math.round\<close> on numbers.
  \<^verbatim>\<open>Math.round\<close> gives the nearest integer, a tie going up; that integer is a double
  whenever its argument is one.\<close>

fun js_mul :: "number \<Rightarrow> number \<Rightarrow> number" where
  "js_mul (Finite a) (Finite b) = to_double (a * b)"
| "js_mul (Finite a) PosInfinity = (if a = 0 then NaN else if 0 < a then PosInfinity else NegInfinity)"
| "js_mul (Finite a) NegInfinity = (if a = 0 then NaN else if 0 < a then NegInfinity else PosInfinity)"
| "js_mul PosInfinity (Finite b) = (if b = 0 then NaN else if 0 < b then PosInfinity else NegInfinity)"
| "js_mul NegInfinity (Finite b) = (if b = 0 then NaN else if 0 < b then NegInfinity else PosInfinity)"
| "js_mul PosInfinity PosInfinity = PosInfinity"
| "js_mul PosInfinity NegInfinity = NegInfinity"
| "js_mul NegInfinity PosInfinity = NegInfinity"
| "js_mul NegInfinity NegInfinity = PosInfinity"
| "js_mul NaN _ = NaN"
| "js_mul _ NaN = NaN"

fun js_div :: "number \<Rightarrow> number \<Rightarrow> number" where
  "js_div (Finite a) (Finite b) =
     (if b = 0 then (if a = 0 then NaN else if 0 < a then PosInfinity else NegInfinity)
      else to_double (a / b))"
| "js_div (Finite a) PosInfinity = Finite 0"
| "js_div (Finite a) NegInfinity = Finite 0"
| "js_div PosInfinity (Finite b) = (if 0 \<le> b then PosInfinity else NegInfinity)"
| "js_div NegInfinity (Finite b) = (if 0 \<le> b then NegInfinity else PosInfinity)"
| "js_div PosInfinity PosInfinity = NaN"
| "js_div PosInfinity NegInfinity = NaN"
| "js_div NegInfinity PosInfinity = NaN"
| "js_div NegInfinity NegInfinity = NaN"
| "js_div NaN _ = NaN"
| "js_div _ NaN = NaN"

fun Math_round :: "number \<Rightarrow> number" where
  "Math_round (Finite x) = Finite (of_int \<lfloor>x + 1 / 2\<rfloor>)"
| "Math_round PosInfinity = PosInfinity"
| "Math_round NegInfinity = NegInfinity"
| "Math_round NaN = NaN"

subsection \<open>Objects\<close>

record meta =
  artist :: "string option"
  title :: "string option"
  label :: "string option"
  catno :: "string option"
  barcode :: "string option"

text \<open>What \<^verbatim>\<open>res.json()\<close> and \<^verbatim>\<open>JSON.parse\<close> can do: throw a SyntaxError,
  yield \<^verbatim>\<open>null\<close>, or yield a value whose properties can be read.\<close>

datatype 'a parsed = SyntaxError | JNull | JValue 'a

text \<open>A response as the code reads it: \<^verbatim>\<open>res.status\<close>, \<^verbatim>\<open>res.text()\<close>,
  \<^verbatim>\<open>res.json()\<close>; \<^verbatim>\<open>res.ok\<close> is the status being in 200..299.\<close>

record 'a response =
  status :: nat
  body_text :: string
  json :: "'a parsed"

definition ok :: "'a response \<Rightarrow> bool" where
  "ok res = (200 \<le> status res \<and> status res \<le> 299)"

text \<open>\<^verbatim>\<open>await fetch(...)\<close> either rejects (no response at all) or resolves.\<close>

datatype 'a fetched = Rejected | Resolved "'a response"

text \<open>The chat completion: \<^verbatim>\<open>data.choices?.[0]?.message?.content\<close>.\<close>

record chat_message =
  content :: "string option"

record chat_choice =
  message :: "chat_message option"

record chat_completion =
  choices :: "chat_choice list option"

text \<open>The object the assistant was asked for, \<^verbatim>\<open>{artist, title}\<close>.\<close>

record reply =
  reply_artist :: "string option"
  reply_title :: "string option"

text \<open>One entry of \<^verbatim>\<open>search.results\<close>, and the search response.\<close>

record community =
  community_have :: "int option"
  community_want :: "int option"

record candidate =
  cand_type :: "string option"
  cand_id :: "int option"
  cand_title :: "string option"
  cand_country :: "string option"
  cand_year :: "string option"
  cand_label :: "string list option"
  cand_catno :: "string option"
  cand_community :: "community option"

record pagination =
  items :: "int option"

record search =
  results :: "candidate list option"
  search_pagination :: "pagination option"

text \<open>The marketplace statistics: \<^verbatim>\<open>{ num_for_sale, lowest_price: { value, ... } }\<close>.\<close>

record price =
  price_value :: "number option"
  price_currency :: "string option"

record stats =
  stats_num_for_sale :: "int option"
  stats_lowest_price :: "price option"

type_synonym URLSearchParams = "(string \<times> string) list"

text \<open>The outside world of one pipeline run: \<^verbatim>\<open>process.env\<close>, what each endpoint
  answers to each request, and what \<^verbatim>\<open>JSON.parse\<close> makes of a string. The Discogs
  token only goes into a request header; no branch of the code depends on it.\<close>

record env =
  OPENAI_API_KEY :: "string option"
  DISCOGS_TOKEN :: "string option"
  fetch_openai :: "meta \<Rightarrow> chat_completion fetched"
  fetch_search :: "URLSearchParams \<Rightarrow> search fetched"
  fetch_stats :: "int \<Rightarrow> stats fetched"
  parse_content :: "string \<Rightarrow> reply parsed"

text \<open>What a run does that can be seen from outside, in order.\<close>

datatype event =
  Sleep nat
  | ReqOpenAI meta
  | ReqSearch URLSearchParams
  | ReqStats int

text \<open>What a run can throw.\<close>

datatype error =
  FetchFailed
  | JsonSyntaxError
  | NullProperty
  | DiscogsSearchError nat string

text \<open>The result object. Its \<^verbatim>\<open>extras\<close> has one of two shapes.\<close>

datatype extras =
  NoResults (extras_note: string) (extras_query: meta) (extras_search_count: int)
  | Matched
      (extras_release_id: "int option")
      (extras_title: "string option")
      (extras_country: "string option")
      (extras_year: "string option")
      (extras_label: "string list option")
      (extras_catno: "string option")
      (extras_community_have: "int option")
      (extras_community_want: "int option")
      (extras_num_for_sale: "int option")

record estimate =
  source :: string
  lowest_price :: "number option"
  median_price :: "number option"
  estimated_price :: "number option"
  extras :: extras

section \<open>JavaScript operators the code uses\<close>

text \<open>Truthiness of a string that may be missing: \<^verbatim>\<open>if (artist)\<close>.\<close>

definition truthy :: "string option \<Rightarrow> bool" where
  "truthy s = (case s of None \<Rightarrow> False | Some t \<Rightarrow> t \<noteq> [])"

text \<open>\<^verbatim>\<open>a || b\<close> on such strings.\<close>

definition js_or :: "string option \<Rightarrow> string option \<Rightarrow> string option" where
  "js_or a b = (if truthy a then a else b)"

text \<open>\<^verbatim>\<open>URLSearchParams.set\<close>: overwrite the first pair of that name and drop the
  others, or append.\<close>

fun URLSearchParams_set :: "URLSearchParams \<Rightarrow> string \<Rightarrow> string \<Rightarrow> URLSearchParams" where
  "URLSearchParams_set [] k v = [(k, v)]"
| "URLSearchParams_set ((k', v') # ps) k v =
     (if k' = k then (k, v) # filter (\<lambda>p. fst p \<noteq> k) ps
      else (k', v') # URLSearchParams_set ps k v)"

definition URLSearchParams_keys :: "URLSearchParams \<Rightarrow> string list" where
  "URLSearchParams_keys q = map fst q"

text \<open>\<^verbatim>\<open>JSON.parse\<close>: the string \<^verbatim>\<open>{}\<close> is the empty object; any other string
  parses as the world says.\<close>

definition JSON_parse :: "env \<Rightarrow> string \<Rightarrow> reply parsed" where
  "JSON_parse e s =
     (if s = ''{}'' then JValue \<lparr>reply_artist = None, reply_title = None\<rparr>
      else parse_content e s)"

section \<open>Discogs helpers\<close>

text \<open>Lines 11 to 15 of \<^verbatim>\<open>discogsSearch\<close>: the query parameters.\<close>

definition search_params :: "meta \<Rightarrow> URLSearchParams" where
  "search_params m =
     (let q = [];
          q = (case artist m of Some a \<Rightarrow> if a \<noteq> [] then URLSearchParams_set q ''artist'' a else q
               | None \<Rightarrow> q);
          q = (case title m of Some t \<Rightarrow> if t \<noteq> [] then URLSearchParams_set q ''release_title'' t else q
               | None \<Rightarrow> q);
          q = (case catno m of Some c \<Rightarrow> if c \<noteq> [] then URLSearchParams_set q ''catno'' c else q
               | None \<Rightarrow> q);
          q = (case barcode m of Some b \<Rightarrow> if b \<noteq> [] then URLSearchParams_set q ''barcode'' b else q
               | None \<Rightarrow> q)
      in q)"

text \<open>\<^verbatim>\<open>discogsSearch\<close>. The value returned is \<^verbatim>\<open>res.json()\<close>, which may be
  \<^verbatim>\<open>null\<close> (\<open>None\<close>).\<close>

definition discogsSearch :: "env \<Rightarrow> meta \<Rightarrow> event list \<times> (error + search option)" where
  "discogsSearch e m =
     (let q = search_params m in
      if URLSearchParams_keys q = []
      then ([], Inr (Some \<lparr>results = Some [], search_pagination = None\<rparr>))
      else
        (case fetch_search e q of
           Rejected \<Rightarrow> ([ReqSearch q], Inl FetchFailed)
         | Resolved res \<Rightarrow>
             if \<not> ok res
             then ([ReqSearch q], Inl (DiscogsSearchError (status res) (body_text res)))
             else
               (case json res of
                  SyntaxError \<Rightarrow> ([ReqSearch q], Inl JsonSyntaxError)
                | JNull \<Rightarrow> ([ReqSearch q], Inr None)
                | JValue s \<Rightarrow> ([ReqSearch q], Inr (Some s)))))"

text \<open>\<^verbatim>\<open>discogsReleaseStats\<close>. \<^verbatim>\<open>!releaseId\<close> holds of a missing identifier and
  of 0.\<close>

definition discogsReleaseStats :: "env \<Rightarrow> int option \<Rightarrow> event list \<times> (error + stats option)" where
  "discogsReleaseStats e releaseId =
     (case releaseId of
        None \<Rightarrow> ([], Inr None)
      | Some i \<Rightarrow>
          if i = 0 then ([], Inr None)
          else
            (case fetch_stats e i of
               Rejected \<Rightarrow> ([ReqStats i], Inl FetchFailed)
             | Resolved res \<Rightarrow>
                 if \<not> ok res then ([ReqStats i], Inr None)
                 else
                   (case json res of
                      SyntaxError \<Rightarrow> ([ReqStats i], Inl JsonSyntaxError)
                    | JNull \<Rightarrow> ([ReqStats i], Inr None)
                    | JValue s \<Rightarrow> ([ReqStats i], Inr (Some s)))))"

section \<open>The optional clean-up of artist and title\<close>

text \<open>\<^verbatim>\<open>data.choices?.[0]?.message?.content || '{}'\<close>.\<close>

definition content_or_default :: "chat_completion \<Rightarrow> string" where
  "content_or_default d =
     (let c = (case choices d of
                 None \<Rightarrow> None
               | Some [] \<Rightarrow> None
               | Some (ch # _) \<Rightarrow>
                   (case message ch of None \<Rightarrow> None | Some msg \<Rightarrow> content msg))
      in case c of None \<Rightarrow> ''{}'' | Some s \<Rightarrow> if s \<noteq> [] then s else ''{}'')"

text \<open>\<^verbatim>\<open>aiNormalize\<close>. The \<^verbatim>\<open>try\<close> block starts after \<^verbatim>\<open>res.json()\<close>: what
  that call throws is thrown by \<^verbatim>\<open>aiNormalize\<close>; what reading \<^verbatim>\<open>data.choices\<close>,
  \<^verbatim>\<open>JSON.parse\<close> or reading \<^verbatim>\<open>parsed.artist\<close> throws is caught.\<close>

definition aiNormalize :: "env \<Rightarrow> meta \<Rightarrow> event list \<times> (error + meta)" where
  "aiNormalize e m =
     (if \<not> truthy (OPENAI_API_KEY e) then ([], Inr m)
      else
        (case fetch_openai e m of
           Rejected \<Rightarrow> ([ReqOpenAI m], Inl FetchFailed)
         | Resolved res \<Rightarrow>
             if \<not> ok res then ([ReqOpenAI m], Inr m)
             else
               (case json res of
                  SyntaxError \<Rightarrow> ([ReqOpenAI m], Inl JsonSyntaxError)
                | JNull \<Rightarrow> ([ReqOpenAI m], Inr m)
                | JValue d \<Rightarrow>
                    (case JSON_parse e (content_or_default d) of
                       SyntaxError \<Rightarrow> ([ReqOpenAI m], Inr m)
                     | JNull \<Rightarrow> ([ReqOpenAI m], Inr m)
                     | JValue p \<Rightarrow>
                         ([ReqOpenAI m],
                          Inr \<lparr>artist = js_or (reply_artist p) (artist m),
                               title = js_or (reply_title p) (title m),
                               label = label m,
                               catno = catno m,
                               barcode = barcode m\<rparr>)))))"

section \<open>The core estimator\<close>

text \<open>Line 89: \<^verbatim>\<open>search.results?.find(r => r.type === 'release') || search.results?.[0]\<close>.
  A candidate is an object, so what \<^verbatim>\<open>find\<close> returns is truthy when it is found.\<close>

definition pick_first :: "search \<Rightarrow> candidate option" where
  "pick_first s =
     (case results s of
        None \<Rightarrow> None
      | Some rs \<Rightarrow>
          (case find (\<lambda>r. cand_type r = Some ''release'') rs of
             Some r \<Rightarrow> Some r
           | None \<Rightarrow> (case rs of [] \<Rightarrow> None | r # _ \<Rightarrow> Some r)))"

text \<open>\<^verbatim>\<open>search.pagination?.items || 0\<close>.\<close>

definition search_count :: "search \<Rightarrow> int" where
  "search_count s =
     (case search_pagination s of
        None \<Rightarrow> 0
      | Some p \<Rightarrow> (case items p of None \<Rightarrow> 0 | Some n \<Rightarrow> if n \<noteq> 0 then n else 0))"

text \<open>Lines 104 to 109: the price derivation from the statistics. \<open>uplift\<close> is
  \<^verbatim>\<open>Math.round(lowest * 1.3 * 100) / 100\<close> of line 108, each operation rounding to a double.\<close>

definition lowest_of :: "stats option \<Rightarrow> number option" where
  "lowest_of st =
     (case st of
        None \<Rightarrow> None
      | Some s \<Rightarrow> (case stats_lowest_price s of None \<Rightarrow> None | Some p \<Rightarrow> price_value p))"

definition count_of :: "stats option \<Rightarrow> int" where
  "count_of st =
     (case st of
        None \<Rightarrow> 0
      | Some s \<Rightarrow> (case stats_num_for_sale s of None \<Rightarrow> 0 | Some n \<Rightarrow> n))"

definition uplift :: "number \<Rightarrow> number" where
  "uplift lowest =
     js_div (Math_round (js_mul (js_mul lowest (to_double (13 / 10))) (Finite 100))) (Finite 100)"

definition estimated_of :: "number option \<Rightarrow> int \<Rightarrow> number option" where
  "estimated_of lowest count =
     (case lowest of
        None \<Rightarrow> None
      | Some l \<Rightarrow> Some (if count > 5 then uplift l else l))"

text \<open>\<^verbatim>\<open>estimateFromMetadata\<close>.\<close>

definition estimateFromMetadata :: "env \<Rightarrow> meta \<Rightarrow> event list \<times> (error + estimate)" where
  "estimateFromMetadata e m =
     (case aiNormalize e m of
        (ev1, Inl err) \<Rightarrow> (ev1, Inl err)
      | (ev1, Inr clean) \<Rightarrow>
          (case discogsSearch e clean of
             (ev2, Inl err) \<Rightarrow> (ev1 @ [Sleep 150] @ ev2, Inl err)
           | (ev2, Inr None) \<Rightarrow> (ev1 @ [Sleep 150] @ ev2, Inl NullProperty)
           | (ev2, Inr (Some srch)) \<Rightarrow>
               (case pick_first srch of
                  None \<Rightarrow>
                    (ev1 @ [Sleep 150] @ ev2,
                     Inr \<lparr>source = ''discogs'',
                          lowest_price = None,
                          median_price = None,
                          estimated_price = None,
                          extras = NoResults ''no results'' clean (search_count srch)\<rparr>)
                | Some first \<Rightarrow>
                    (case discogsReleaseStats e (cand_id first) of
                       (ev3, Inl err) \<Rightarrow> (ev1 @ [Sleep 150] @ ev2 @ [Sleep 150] @ ev3, Inl err)
                     | (ev3, Inr st) \<Rightarrow>
                         (let lowest = lowest_of st;
                              count = count_of st;
                              estimated = estimated_of lowest count
                          in (ev1 @ [Sleep 150] @ ev2 @ [Sleep 150] @ ev3,
                              Inr \<lparr>source = ''discogs'',
                                   lowest_price = lowest,
                                   median_price = None,
                                   estimated_price = estimated,
                                   extras =
                                     Matched (cand_id first) (cand_title first)
                                       (cand_country first) (cand_year first)
                                       (cand_label first) (cand_catno first)
                                       (case cand_community first of
                                          None \<Rightarrow> None | Some c \<Rightarrow> community_have c)
                                       (case cand_community first of
                                          None \<Rightarrow> None | Some c \<Rightarrow> community_want c)
                                       (case st of
                                          None \<Rightarrow> None | Some s \<Rightarrow> stats_num_for_sale s)\<rparr>))))))"

text \<open>What \<^verbatim>\<open>discogsSearch\<close> is called with at line 86, when the run gets there:
  the value \<^verbatim>\<open>clean\<close> that \<^verbatim>\<open>aiNormalize\<close> returned.\<close>

definition search_input :: "env \<Rightarrow> meta \<Rightarrow> meta option" where
  "search_input e m =
     (case aiNormalize e m of (_, Inl _) \<Rightarrow> None | (_, Inr clean) \<Rightarrow> Some clean)"

section \<open>The queue's enqueue helper\<close>

text \<open>The options object that \<^verbatim>\<open>enqueue\<close> of \<^verbatim>\<open>queue.js\<close> hands to BullMQ's
  \<^verbatim>\<open>q.add\<close>. The library's \<^verbatim>\<open>add\<close> is a parameter.\<close>

record backoff =
  backoff_type :: string
  delay :: nat

record retention =
  age :: nat
  count :: nat

record job_opts =
  attempts :: nat
  backoff :: backoff
  removeOnComplete :: retention
  removeOnFail :: retention

definition enqueue :: "(string \<Rightarrow> 'd \<Rightarrow> job_opts \<Rightarrow> 'r) \<Rightarrow> string \<Rightarrow> 'd \<Rightarrow> 'r" where
  "enqueue add name data =
     add name data
       \<lparr>attempts = 5,
        backoff = \<lparr>backoff_type = ''exponential'', delay = 2000\<rparr>,
        removeOnComplete = \<lparr>age = 3600, count = 5000\<rparr>,
        removeOnFail = \<lparr>age = 86400, count = 1000\<rparr>\<rparr>"

section \<open>The worker\<close>

text \<open>The processor that \<^verbatim>\<open>worker.js\<close> gives to BullMQ's \<^verbatim>\<open>Worker\<close>. The database
  is a parameter: what the \<^verbatim>\<open>select\<close> returns for a record identifier (\<open>None\<close> when
  the query is rejected; of a row the processor reads the five columns of the metadata) and
  whether the \<^verbatim>\<open>insert\<close> goes through. A processor that throws fails its job; BullMQ
  then retries the job as the options of \<^verbatim>\<open>enqueue\<close> say.\<close>

record db =
  select_record :: "int \<Rightarrow> meta list option"
  insert_estimate :: "int \<Rightarrow> estimate \<Rightarrow> bool"

datatype job_error = QueryFailed | RecordNotFound int | EstimateFailed error

datatype job_return = Estimated int "number option" | NoOp

definition processor :: "env \<Rightarrow> db \<Rightarrow> string \<Rightarrow> int \<Rightarrow> job_error + job_return" where
  "processor e d kind recordId =
     (if kind = ''estimate''
      then
        (case select_record d recordId of
           None \<Rightarrow> Inl QueryFailed
         | Some rows \<Rightarrow>
             (case rows of
                [] \<Rightarrow> Inl (RecordNotFound recordId)
              | row # _ \<Rightarrow>
                  (case snd (estimateFromMetadata e row) of
                     Inl err \<Rightarrow> Inl (EstimateFailed err)
                   | Inr out \<Rightarrow>
                       if insert_estimate d recordId out
                       then Inr (Estimated recordId (estimated_price out))
                       else Inl QueryFailed)))
      else Inr NoOp)"

section \<open>The specification's rounding\<close>

text \<open>Rounding to \<open>d\<close> decimal places as the specification words it: the nearest
  multiple of \<open>10\<^sup>-\<^sup>d\<close>, a tie going up.\<close>

definition spec_round :: "rat \<Rightarrow> nat \<Rightarrow> rat" where
  "spec_round x d = of_int (round (x * 10 ^ d)) / 10 ^ d"

section \<open>Concrete worlds\<close>

text \<open>The metadata and the answers of the specification's scenario: one release
  candidate with identifier 42, lowest price 10.00, 8 active listings.\<close>

definition meta_AB :: meta where
  "meta_AB =
     \<lparr>artist = Some ''Artist A'', title = Some ''Title B'', label = None,
      catno = None, barcode = None\<rparr>"

definition release_42 :: candidate where
  "release_42 =
     \<lparr>cand_type = Some ''release'', cand_id = Some 42, cand_title = Some ''Artist A - Title B'',
      cand_country = Some ''UK'', cand_year = Some ''1979'', cand_label = Some [''Label L''],
      cand_catno = Some ''CAT 1'', cand_community = Some \<lparr>community_have = Some 3, community_want = Some 7\<rparr>\<rparr>"

definition search_one :: search where
  "search_one =
     \<lparr>results = Some [release_42], search_pagination = Some \<lparr>items = Some 1\<rparr>\<rparr>"

definition stats_10_8 :: stats where
  "stats_10_8 =
     \<lparr>stats_num_for_sale = Some 8,
      stats_lowest_price = Some \<lparr>price_value = Some (Finite 10), price_currency = Some ''USD''\<rparr>\<rparr>"

text \<open>No API key; both Discogs calls answer 200.\<close>

definition env_scenario :: env where
  "env_scenario =
     \<lparr>OPENAI_API_KEY = None, DISCOGS_TOKEN = Some ''t'',
      fetch_openai = (\<lambda>_. Rejected),
      fetch_search = (\<lambda>_. Resolved \<lparr>status = 200, body_text = [], json = JValue search_one\<rparr>),
      fetch_stats = (\<lambda>_. Resolved \<lparr>status = 200, body_text = [], json = JValue stats_10_8\<rparr>),
      parse_content = (\<lambda>_. SyntaxError)\<rparr>"

text \<open>The same world, but the statistics endpoint answers 404.\<close>

definition env_stats_404 :: env where
  "env_stats_404 =
     env_scenario\<lparr>fetch_stats := (\<lambda>_. Resolved \<lparr>status = 404, body_text = ''Not found'', json = SyntaxError\<rparr>)\<rparr>"

text \<open>The specification's second scenario: an artist nobody knows, and a search that
  finds nothing.\<close>

definition meta_unknown :: meta where
  "meta_unknown = \<lparr>artist = Some ''Unknown'', title = None, label = None, catno = None, barcode = None\<rparr>"

definition env_no_results :: env where
  "env_no_results =
     env_scenario\<lparr>fetch_search := (\<lambda>_. Resolved \<lparr>status = 200, body_text = [],
        json = JValue \<lparr>results = Some [], search_pagination = Some \<lparr>items = Some 0\<rparr>\<rparr>\<rparr>)\<rparr>"

text \<open>Candidates of other types.\<close>

definition master_7 :: candidate where
  "master_7 = release_42\<lparr>cand_type := Some ''master'', cand_id := Some 7\<rparr>"

definition artist_9 :: candidate where
  "artist_9 = release_42\<lparr>cand_type := Some ''artist'', cand_id := Some 9\<rparr>"

text \<open>Noisy metadata with every field set.\<close>

definition meta_noisy :: meta where
  "meta_noisy =
     \<lparr>artist = Some ''ARTIST A (vinyl)'', title = Some ''Title B'', label = Some ''Label L'',
      catno = Some ''CAT 1'', barcode = Some ''0123456789''\<rparr>"

text \<open>An API key is set; the assistant answers 200 with a completion whose content
  parses to an object with artist \<open>Artist A\<close> and an empty title.\<close>

definition env_rewrite :: env where
  "env_rewrite =
     env_scenario
       \<lparr>OPENAI_API_KEY := Some ''sk-key'',
        fetch_openai := (\<lambda>_. Resolved \<lparr>status = 200, body_text = [],
          json = JValue \<lparr>choices = Some [\<lparr>message = Some \<lparr>content = Some ''reply''\<rparr>\<rparr>]\<rparr>\<rparr>),
        parse_content := (\<lambda>_. JValue \<lparr>reply_artist = Some ''Artist A'', reply_title = Some []\<rparr>)\<rparr>"

text \<open>Metadata with nothing to search for: the label is not a search field.\<close>

definition meta_blank :: meta where
  "meta_blank =
     \<lparr>artist = Some [], title = None, label = Some ''Label L'', catno = None, barcode = Some []\<rparr>"

text \<open>Worlds in which something goes wrong: the assistant answers 200 with a body that
  is not JSON; the assistant answers 500; the assistant's content does not parse; the
  search answers 500; the statistics request gets no response.\<close>

definition env_bad_body :: env where
  "env_bad_body =
     env_rewrite\<lparr>fetch_openai :=
       (\<lambda>_. Resolved \<lparr>status = 200, body_text = ''<html>'', json = SyntaxError\<rparr>)\<rparr>"

definition env_openai_500 :: env where
  "env_openai_500 =
     env_rewrite\<lparr>fetch_openai :=
       (\<lambda>_. Resolved \<lparr>status = 500, body_text = ''Internal Server Error'', json = SyntaxError\<rparr>)\<rparr>"

definition env_garbled :: env where
  "env_garbled = env_rewrite\<lparr>parse_content := (\<lambda>_. SyntaxError)\<rparr>"

definition env_search_500 :: env where
  "env_search_500 =
     env_scenario\<lparr>fetch_search :=
       (\<lambda>_. Resolved \<lparr>status = 500, body_text = ''Internal Server Error'', json = SyntaxError\<rparr>)\<rparr>"

definition env_stats_down :: env where
  "env_stats_down = env_scenario\<lparr>fetch_stats := (\<lambda>_. Rejected)\<rparr>"

text \<open>Statistics with a lowest price of 9.95 and of 0.15, as JSON carries them, and 8
  active listings.\<close>

definition env_995 :: env where
  "env_995 =
     env_scenario\<lparr>fetch_stats := (\<lambda>_. Resolved \<lparr>status = 200, body_text = [],
        json = JValue \<lparr>stats_num_for_sale = Some 8,
          stats_lowest_price =
            Some \<lparr>price_value = Some (to_double (995 / 100)), price_currency = Some ''USD''\<rparr>\<rparr>\<rparr>)\<rparr>"

definition env_015 :: env where
  "env_015 =
     env_scenario\<lparr>fetch_stats := (\<lambda>_. Resolved \<lparr>status = 200, body_text = [],
        json = JValue \<lparr>stats_num_for_sale = Some 8,
          stats_lowest_price =
            Some \<lparr>price_value = Some (to_double (15 / 100)), price_currency = Some ''USD''\<rparr>\<rparr>\<rparr>)\<rparr>"

text \<open>A database with the record 1, whose metadata are those of the scenario, and in
  which every insert goes through.\<close>

definition db_one :: db where
  "db_one =
     \<lparr>select_record = (\<lambda>i. if i = 1 then Some [meta_AB] else Some []),
      insert_estimate = (\<lambda>_ _. True)\<rparr>"

section \<open>Facts about doubles\<close>

lemma binade_bounds:
  assumes "x \<noteq> 0"
  shows "2 powi binade x \<le> \<bar>x\<bar> \<and> \<bar>x\<bar> < 2 powi (binade x + 1)"
proof (cases "1 \<le> \<bar>x\<bar>")
  case True
  define f where "f = \<lfloor>\<bar>x\<bar>\<rfloor>"
  have f: "0 < f" using True by (simp add: f_def)
  from bitlen_bounds [OF f]
  have lo: "2 ^ nat (bitlen f - 1) \<le> f" and hi: "f < 2 ^ nat (bitlen f)" by auto
  have b: "1 \<le> bitlen f" using f by (simp add: bitlen_def floorlog_def)
  have e: "binade x = bitlen f - 1" using True by (simp add: binade_def f_def)
  have "(2 ^ nat (bitlen f - 1) :: rat) = of_int (2 ^ nat (bitlen f - 1))" by simp
  also have "\<dots> \<le> of_int f"
    using lo by (simp only: of_int_le_iff)
  also have "\<dots> \<le> \<bar>x\<bar>" by (simp add: f_def)
  finally have 1: "2 powi binade x \<le> \<bar>x\<bar>"
    using b by (simp add: e power_int_def)
  have fi: "f + 1 \<le> 2 ^ nat (bitlen f)" using hi by simp
  have "\<bar>x\<bar> < of_int (f + 1)" unfolding f_def by linarith
  also have "(of_int (f + 1) :: rat) \<le> of_int (2 ^ nat (bitlen f))"
    using fi by (simp only: of_int_le_iff)
  also have "\<dots> = 2 ^ nat (bitlen f)" by simp
  finally have 2: "\<bar>x\<bar> < 2 powi (binade x + 1)"
    using b by (simp add: e power_int_def)
  from 1 2 show ?thesis ..
next
  case False
  then have x1: "\<bar>x\<bar> < 1" by simp
  have x0: "0 < \<bar>x\<bar>" using assms by simp
  define c where "c = \<lceil>1 / \<bar>x\<bar>\<rceil>"
  have inv: "1 < 1 / \<bar>x\<bar>" using x0 x1 by simp
  then have c2: "2 \<le> c" unfolding c_def by linarith
  then have c1: "0 < c - 1" by simp
  from bitlen_bounds [OF c1]
  have lo: "2 ^ nat (bitlen (c - 1) - 1) \<le> c - 1" and hi: "c - 1 < 2 ^ nat (bitlen (c - 1))" by auto
  have b: "1 \<le> bitlen (c - 1)" using c1 by (simp add: bitlen_def floorlog_def)
  have e: "binade x = - bitlen (c - 1)" using False by (simp add: binade_def c_def)
  have ci: "c \<le> 2 ^ nat (bitlen (c - 1))" using hi by simp
  have "1 / \<bar>x\<bar> \<le> of_int c" by (simp add: c_def)
  also have "(of_int c :: rat) \<le> of_int (2 ^ nat (bitlen (c - 1)))"
    using ci by (simp only: of_int_le_iff)
  also have "\<dots> = 2 ^ nat (bitlen (c - 1))" by simp
  finally have "1 / \<bar>x\<bar> \<le> 2 ^ nat (bitlen (c - 1))" .
  then have "1 \<le> 2 ^ nat (bitlen (c - 1)) * \<bar>x\<bar>"
    using x0 by (simp add: field_simps)
  then have 1: "2 powi binade x \<le> \<bar>x\<bar>"
    using b by (simp add: e power_int_def field_simps)
  have "(2 ^ nat (bitlen (c - 1) - 1) :: rat) = of_int (2 ^ nat (bitlen (c - 1) - 1))" by simp
  also have "\<dots> \<le> of_int (c - 1)"
    using lo by (simp only: of_int_le_iff)
  also have "\<dots> < 1 / \<bar>x\<bar>" unfolding c_def by linarith
  finally have "2 ^ nat (bitlen (c - 1) - 1) < 1 / \<bar>x\<bar>" .
  then have "\<bar>x\<bar> < 1 / 2 ^ nat (bitlen (c - 1) - 1)"
    using x0 by (simp add: field_simps)
  moreover define k where "k = nat (bitlen (c - 1) - 1)"
  moreover have "binade x + 1 = - int k"
    using b by (simp add: e k_def)
  moreover have "(2::rat) powi (- int k) = 1 / 2 ^ k"
    by (simp only: power_int_minus power_int_of_nat inverse_eq_divide)
  ultimately have 2: "\<bar>x\<bar> < 2 powi (binade x + 1)"
    by simp
  from 1 2 show ?thesis ..
qed

lemma round_ties_even_error: "\<bar>of_int (round_ties_even y) - y\<bar> \<le> 1 / 2"
proof -
  have "of_int \<lfloor>y\<rfloor> \<le> y" and "y < of_int \<lfloor>y\<rfloor> + 1"
    by linarith+
  then show ?thesis
    unfolding round_ties_even_def Let_def by (auto simp: abs_le_iff)
qed

lemma ulp_pos: "0 < ulp x"
  by (simp add: ulp_def)

lemma ulp_le:
  assumes "x \<noteq> 0"
  shows "ulp x \<le> \<bar>x\<bar> / 2 ^ 52 + 1 / 2 ^ 1074"
proof (cases "- 1022 \<le> binade x")
  case True
  then have "ulp x = 2 powi (binade x - 52)"
    by (simp add: ulp_def max_def)
  also have "\<dots> = 2 powi binade x / 2 ^ 52"
    by (simp add: power_int_diff)
  also have "\<dots> \<le> \<bar>x\<bar> / 2 ^ 52"
    using binade_bounds [OF assms] by (simp add: divide_right_mono)
  finally show ?thesis by simp
next
  case False
  then have "ulp x = 2 powi (- 1074)"
    by (simp add: ulp_def max_def)
  also have "\<dots> = 1 / 2 ^ 1074"
    by (simp add: power_int_minus field_simps)
  finally show ?thesis by simp
qed

lemma binade_eqI:
  assumes "2 powi e \<le> \<bar>x\<bar>" and "\<bar>x\<bar> < 2 powi (e + 1)"
  shows "binade x = e"
proof -
  have "(0::rat) < 2 powi e" by simp
  with assms(1) have "0 < \<bar>x\<bar>" by linarith
  then have x: "x \<noteq> 0" by simp
  note b = binade_bounds [OF x]
  have "binade x < e + 1"
  proof (rule ccontr)
    assume "\<not> binade x < e + 1"
    then have "(2::rat) powi (e + 1) \<le> 2 powi binade x"
      by (intro power_int_increasing) simp_all
    with b assms(2) show False by linarith
  qed
  moreover have "e < binade x + 1"
  proof (rule ccontr)
    assume "\<not> e < binade x + 1"
    then have "(2::rat) powi (binade x + 1) \<le> 2 powi e"
      by (intro power_int_increasing) simp_all
    with b assms(1) show False by linarith
  qed
  ultimately show ?thesis by simp
qed

lemma rounded_error:
  assumes "x \<noteq> 0"
  shows "\<bar>of_int (round_ties_even (x / ulp x)) * ulp x - x\<bar> \<le> \<bar>x\<bar> / 10 ^ 15 + 1 / 10 ^ 20"
proof -
  define u where "u = ulp x"
  define y where "y = of_int (round_ties_even (x / u)) * u"
  have u0: "0 < u" by (simp add: u_def ulp_pos)
  have "y - x = (of_int (round_ties_even (x / u)) - x / u) * u"
    using u0 by (simp add: y_def field_simps)
  then have "\<bar>y - x\<bar> = \<bar>of_int (round_ties_even (x / u)) - x / u\<bar> * u"
    using u0 by (simp add: abs_mult)
  also have "\<dots> \<le> 1 / 2 * u"
    using round_ties_even_error [of "x / u"] u0 by (simp add: mult_right_mono)
  finally have err: "\<bar>y - x\<bar> \<le> u / 2" by simp
  have ub: "u \<le> \<bar>x\<bar> / 2 ^ 52 + 1 / 2 ^ 1074"
    unfolding u_def by (rule ulp_le [OF assms])
  have c1: "\<bar>x\<bar> / 2 ^ 52 / 2 \<le> \<bar>x\<bar> / 10 ^ 15"
    by (simp add: field_simps)
  have c2: "(1::rat) / 2 ^ 1074 / 2 \<le> 1 / 10 ^ 20"
    by simp
  have "u / 2 \<le> (\<bar>x\<bar> / 2 ^ 52 + 1 / 2 ^ 1074) / 2"
    using ub by (rule divide_right_mono) simp
  also have "\<dots> = \<bar>x\<bar> / 2 ^ 52 / 2 + 1 / 2 ^ 1074 / 2"
    by (rule add_divide_distrib)
  also have "\<dots> \<le> \<bar>x\<bar> / 10 ^ 15 + 1 / 10 ^ 20"
    by (rule add_mono [OF c1 c2])
  finally have "\<bar>y - x\<bar> \<le> \<bar>x\<bar> / 10 ^ 15 + 1 / 10 ^ 20"
    using err by (rule order_trans [rotated])
  then show ?thesis by (simp add: y_def u_def)
qed

lemma to_double_small:
  assumes "\<bar>x\<bar> \<le> 10 ^ 12"
  shows "to_double x = Finite (of_int (round_ties_even (x / ulp x)) * ulp x)"
proof (cases "x = 0")
  case True
  then show ?thesis by (simp add: to_double_def round_ties_even_def)
next
  case False
  define y where "y = of_int (round_ties_even (x / ulp x)) * ulp x"
  have bound: "\<bar>y - x\<bar> \<le> \<bar>x\<bar> / 10 ^ 15 + 1 / 10 ^ 20"
    unfolding y_def by (rule rounded_error [OF False])
  have "\<bar>x\<bar> / 10 ^ 15 \<le> 10 ^ 12 / 10 ^ 15"
    using assms by (rule divide_right_mono) simp
  then have "\<bar>x\<bar> / 10 ^ 15 + 1 / 10 ^ 20 \<le> 1"
    by simp
  with bound have "\<bar>y - x\<bar> \<le> 1"
    by (rule order_trans)
  then have "\<bar>y\<bar> \<le> \<bar>x\<bar> + 1"
    by linarith
  with assms have "\<bar>y\<bar> \<le> 10 ^ 12 + 1"
    by linarith
  moreover have "(10 ^ 12 + 1 :: rat) < 2 ^ 1024"
    by simp
  ultimately have "\<not> 2 ^ 1024 \<le> y" and "\<not> y \<le> - (2 ^ 1024)"
    by (simp_all add: abs_le_iff)
  then show ?thesis
    using False by (simp add: to_double_def Let_def y_def)
qed

lemma to_double_error:
  assumes "\<bar>x\<bar> \<le> 10 ^ 12"
  shows "\<exists>y. to_double x = Finite y \<and> \<bar>y - x\<bar> \<le> \<bar>x\<bar> / 10 ^ 15 + 1 / 10 ^ 20"
proof (cases "x = 0")
  case True
  then show ?thesis by (simp add: to_double_def)
next
  case False
  from to_double_small [OF assms] rounded_error [OF False] show ?thesis
    by blast
qed

lemma to_double_eqI:
  assumes "2 powi e \<le> \<bar>x\<bar>" and "\<bar>x\<bar> < 2 powi (e + 1)" and "- 1022 \<le> e"
    and "\<bar>x\<bar> \<le> 10 ^ 12"
  shows "to_double x = Finite (of_int (round_ties_even (x / 2 powi (e - 52))) * 2 powi (e - 52))"
proof -
  have "ulp x = 2 powi (e - 52)"
    using assms(3) by (simp add: ulp_def binade_eqI [OF assms(1,2)] max_def)
  with to_double_small [OF assms(4)] show ?thesis by simp
qed

lemma round_ties_even_eqI:
  assumes "\<bar>y - of_int n\<bar> < 1 / 2"
  shows "round_ties_even y = n"
proof (cases "of_int n \<le> y")
  case True
  with assms have "y < of_int n + 1" by linarith
  with True have f: "\<lfloor>y\<rfloor> = n" by (rule floor_unique)
  from assms True have "y - of_int n < 1 / 2" by linarith
  then show ?thesis by (simp add: round_ties_even_def f)
next
  case False
  with assms have "of_int (n - 1) \<le> y" "y < of_int (n - 1) + 1" by simp_all
  then have f: "\<lfloor>y\<rfloor> = n - 1" by (rule floor_unique)
  from assms False have "1 / 2 < y - of_int (n - 1)" by simp
  then show ?thesis by (simp add: round_ties_even_def f)
qed

lemma to_double_eqI':
  assumes "2 powi e \<le> \<bar>x\<bar>" and "\<bar>x\<bar> < 2 powi (e + 1)" and "- 1022 \<le> e"
    and "\<bar>x\<bar> \<le> 10 ^ 12" and "\<bar>x / 2 powi (e - 52) - of_int n\<bar> < 1 / 2"
  shows "to_double x = Finite (of_int n * 2 powi (e - 52))"
  by (simp add: to_double_eqI [OF assms(1-4)] round_ties_even_eqI [OF assms(5)])

lemma double_13_10: "to_double (13 / 10) = Finite (5854679515581645 / 4503599627370496)"
  by (subst to_double_eqI' [where e = 0 and n = 5854679515581645]) simp_all

lemma double_995_100: "to_double (995 / 100) = Finite (2800676018271027 / 281474976710656)"
  by (subst to_double_eqI' [where e = 3 and n = 5601352036542054]) simp_all

lemma double_15_100: "to_double (15 / 100) = Finite (5404319552844595 / 36028797018963968)"
  by (subst to_double_eqI' [where e = "- 3" and n = 5404319552844595]) simp_all

text \<open>The product \<^verbatim>\<open>lowest * 1.3 * 100\<close> in doubles is within a thousandth of
  \<open>130 \<times> lowest\<close> for every price up to \<open>10\<^sup>9\<close>.\<close>

lemma uplift_product_error:
  assumes "\<bar>l\<bar> \<le> 10 ^ 9"
  shows "\<exists>b. js_mul (js_mul (Finite l) (to_double (13 / 10))) (Finite 100) = Finite b \<and>
           \<bar>b - 130 * l\<bar> \<le> 1 / 1000"
proof -
  define c :: rat where "c = 5854679515581645 / 4503599627370496"
  have c: "to_double (13 / 10) = Finite c"
    by (simp add: c_def double_13_10)
  have c_err: "\<bar>c - 13 / 10\<bar> \<le> 1 / 10 ^ 15"
    by (simp add: c_def)
  have c_abs: "\<bar>c\<bar> \<le> 2"
    by (simp add: c_def)
  have lc: "\<bar>l * c\<bar> \<le> 2 * 10 ^ 9"
  proof -
    have "\<bar>l * c\<bar> = \<bar>l\<bar> * \<bar>c\<bar>" by (rule abs_mult)
    also have "\<dots> \<le> 10 ^ 9 * 2"
      using assms c_abs by (rule mult_mono) simp_all
    finally show ?thesis by simp
  qed
  then have "\<bar>l * c\<bar> \<le> 10 ^ 12" by simp
  from to_double_error [OF this] obtain a where
    a: "to_double (l * c) = Finite a" and a_err0: "\<bar>a - l * c\<bar> \<le> \<bar>l * c\<bar> / 10 ^ 15 + 1 / 10 ^ 20"
    by blast
  have "\<bar>l * c\<bar> / 10 ^ 15 \<le> 2 * 10 ^ 9 / 10 ^ 15"
    using lc by (rule divide_right_mono) simp
  then have "\<bar>l * c\<bar> / 10 ^ 15 + 1 / 10 ^ 20 \<le> 3 / 10 ^ 6"
    by simp
  with a_err0 have a_err: "\<bar>a - l * c\<bar> \<le> 3 / 10 ^ 6"
    by (rule order_trans)
  have "\<bar>a\<bar> \<le> \<bar>l * c\<bar> + \<bar>a - l * c\<bar>"
    by linarith
  also have "\<dots> \<le> 2 * 10 ^ 9 + 3 / 10 ^ 6"
    by (rule add_mono [OF lc a_err])
  finally have a_abs: "\<bar>a\<bar> \<le> 2 * 10 ^ 9 + 1"
    by simp
  have a100: "\<bar>a * 100\<bar> \<le> 2 * 10 ^ 11 + 100"
    using a_abs by (simp add: abs_mult)
  then have "\<bar>a * 100\<bar> \<le> 10 ^ 12" by simp
  from to_double_error [OF this] obtain b where
    b: "to_double (a * 100) = Finite b"
    and b_err0: "\<bar>b - a * 100\<bar> \<le> \<bar>a * 100\<bar> / 10 ^ 15 + 1 / 10 ^ 20"
    by blast
  have "\<bar>a * 100\<bar> / 10 ^ 15 \<le> (2 * 10 ^ 11 + 100) / 10 ^ 15"
    using a100 by (rule divide_right_mono) simp
  then have "\<bar>a * 100\<bar> / 10 ^ 15 + 1 / 10 ^ 20 \<le> 3 / 10 ^ 4"
    by simp
  with b_err0 have b_err: "\<bar>b - a * 100\<bar> \<le> 3 / 10 ^ 4"
    by (rule order_trans)
  have l_err: "\<bar>l * (c - 13 / 10)\<bar> \<le> 1 / 10 ^ 6"
  proof -
    have "\<bar>l * (c - 13 / 10)\<bar> = \<bar>l\<bar> * \<bar>c - 13 / 10\<bar>" by (rule abs_mult)
    also have "\<dots> \<le> 10 ^ 9 * (1 / 10 ^ 15)"
      using assms c_err by (rule mult_mono) simp_all
    finally show ?thesis by simp
  qed
  define P Q R where "P = b - a * 100" and "Q = a - l * c" and "R = l * (c - 13 / 10)"
  have "b - 130 * l = P + 100 * Q + 100 * R"
    by (simp add: P_def Q_def R_def algebra_simps)
  then have "\<bar>b - 130 * l\<bar> \<le> \<bar>P\<bar> + 100 * \<bar>Q\<bar> + 100 * \<bar>R\<bar>"
    by linarith
  also have "\<dots> \<le> 3 / 10 ^ 4 + 100 * (3 / 10 ^ 6) + 100 * (1 / 10 ^ 6)"
    using b_err a_err l_err unfolding P_def Q_def R_def
    by (intro add_mono mult_left_mono) simp_all
  finally have "\<bar>b - 130 * l\<bar> \<le> 1 / 1000"
    by simp
  moreover have "js_mul (js_mul (Finite l) (to_double (13 / 10))) (Finite 100) = Finite b"
    by (simp add: c a b)
  ultimately show ?thesis by blast
qed

lemma round_near:
  fixes b x :: rat
  assumes "\<bar>b - x\<bar> \<le> 1 / 1000" and "1 / 1000 < \<bar>x - of_int \<lfloor>x\<rfloor> - 1 / 2\<bar>"
  shows "\<lfloor>b + 1 / 2\<rfloor> = round x"
proof -
  have f: "of_int \<lfloor>x\<rfloor> \<le> x" "x < of_int \<lfloor>x\<rfloor> + 1" by linarith+
  show ?thesis
  proof (cases "x - of_int \<lfloor>x\<rfloor> < 1 / 2")
    case True
    with assms f have "of_int \<lfloor>x\<rfloor> \<le> b + 1 / 2" "b + 1 / 2 < of_int \<lfloor>x\<rfloor> + 1"
      "of_int \<lfloor>x\<rfloor> \<le> x + 1 / 2" "x + 1 / 2 < of_int \<lfloor>x\<rfloor> + 1"
      by linarith+
    then have "\<lfloor>b + 1 / 2\<rfloor> = \<lfloor>x\<rfloor>" "\<lfloor>x + 1 / 2\<rfloor> = \<lfloor>x\<rfloor>"
      by (simp_all add: floor_unique)
    then show ?thesis by (simp add: round_def)
  next
    case False
    with assms f have "of_int (\<lfloor>x\<rfloor> + 1) \<le> b + 1 / 2" "b + 1 / 2 < of_int (\<lfloor>x\<rfloor> + 1) + 1"
      "of_int (\<lfloor>x\<rfloor> + 1) \<le> x + 1 / 2" "x + 1 / 2 < of_int (\<lfloor>x\<rfloor> + 1) + 1"
      by (simp_all; linarith)+
    then have "\<lfloor>b + 1 / 2\<rfloor> = \<lfloor>x\<rfloor> + 1" "\<lfloor>x + 1 / 2\<rfloor> = \<lfloor>x\<rfloor> + 1"
      by (simp_all only: floor_unique)
    then show ?thesis by (simp add: round_def)
  qed
qed

lemma uplift_cents:
  assumes "\<bar>l\<bar> \<le> 10 ^ 9"
  shows "\<exists>k. uplift (Finite l) = to_double (of_int k / 100) \<and>
           \<bar>of_int k - 130 * l\<bar> \<le> 1 / 2 + 1 / 1000 \<and>
           (1 / 1000 < \<bar>130 * l - of_int \<lfloor>130 * l\<rfloor> - 1 / 2\<bar> \<longrightarrow>
              uplift (Finite l) = to_double (spec_round (l * 13 / 10) 2))"
proof -
  from uplift_product_error [OF assms] obtain b where
    b: "js_mul (js_mul (Finite l) (to_double (13 / 10))) (Finite 100) = Finite b"
    and b_err: "\<bar>b - 130 * l\<bar> \<le> 1 / 1000"
    by blast
  define k where "k = \<lfloor>b + 1 / 2\<rfloor>"
  have u: "uplift (Finite l) = to_double (of_int k / 100)"
    by (simp add: uplift_def b k_def)
  have "\<bar>of_int k - b\<bar> \<le> 1 / 2"
    unfolding k_def by linarith
  with b_err have kb: "\<bar>of_int k - 130 * l\<bar> \<le> 1 / 2 + 1 / 1000"
    by linarith
  have "uplift (Finite l) = to_double (spec_round (l * 13 / 10) 2)"
    if "1 / 1000 < \<bar>130 * l - of_int \<lfloor>130 * l\<rfloor> - 1 / 2\<bar>"
  proof -
    have "k = round (130 * l)"
      unfolding k_def by (rule round_near [OF b_err that])
    moreover have "l * 13 / 10 * 10 ^ 2 = 130 * l"
      by simp
    ultimately show ?thesis
      by (simp add: u spec_round_def)
  qed
  with u kb show ?thesis by blast
qed

text \<open>The expression at 10.00, at 9.95 and at 0.15, each step with its exponent and its
  significand.\<close>

lemma uplift_10: "uplift (Finite 10) = Finite 13"
proof -
  have a: "to_double (10 * (5854679515581645 / 4503599627370496)) = Finite 13"
    by (subst to_double_eqI' [where e = 3 and n = 7318349394477056]) simp_all
  have b: "to_double (13 * 100) = Finite 1300"
    by (subst to_double_eqI' [where e = 10 and n = 5717460464435200]) simp_all
  have r: "\<lfloor>1300 + 1 / 2 :: rat\<rfloor> = 1300"
    by (rule floor_unique) simp_all
  have d: "to_double (1300 / 100) = Finite 13"
    by (subst to_double_eqI' [where e = 3 and n = 7318349394477056]) simp_all
  show ?thesis
    by (simp only: uplift_def double_13_10 js_mul.simps a b Math_round.simps r js_div.simps d
        of_int_numeral) simp
qed

lemma uplift_995: "uplift (to_double (995 / 100)) = to_double (1293 / 100)"
proof -
  have a: "to_double (2800676018271027 / 281474976710656 * (5854679515581645 / 4503599627370496))
      = Finite (3640878823752335 / 281474976710656)"
    by (subst to_double_eqI' [where e = 3 and n = 7281757647504670]) simp_all
  have b: "to_double (3640878823752335 / 281474976710656 * 100)
      = Finite (5688873162113023 / 4398046511104)"
    by (subst to_double_eqI' [where e = 10 and n = 5688873162113023]) simp_all
  have r: "\<lfloor>5688873162113023 / 4398046511104 + 1 / 2 :: rat\<rfloor> = 1293"
    by (rule floor_unique) simp_all
  show ?thesis
    by (simp only: uplift_def double_995_100 double_13_10 js_mul.simps a b Math_round.simps r
        js_div.simps of_int_numeral) simp
qed

lemma uplift_015: "uplift (to_double (15 / 100)) = to_double (20 / 100)"
proof -
  have a: "to_double (5404319552844595 / 36028797018963968 * (5854679515581645 / 4503599627370496))
      = Finite (3512807709348987 / 18014398509481984)"
    by (subst to_double_eqI' [where e = "- 3" and n = 7025615418697974]) simp_all
  have b: "to_double (3512807709348987 / 18014398509481984 * 100) = Finite (39 / 2)"
    by (subst to_double_eqI' [where e = 4 and n = 5488762045857792]) simp_all
  have r: "\<lfloor>39 / 2 + 1 / 2 :: rat\<rfloor> = 20"
    by (rule floor_unique) simp_all
  show ?thesis
    by (simp only: uplift_def double_15_100 double_13_10 js_mul.simps a b Math_round.simps r
        js_div.simps of_int_numeral) simp
qed

lemma double_1293_100: "to_double (1293 / 100) = Finite (1819735724434391 / 140737488355328)"
  by (subst to_double_eqI' [where e = 3 and n = 7278942897737564]) simp_all

lemma double_1294_100: "to_double (1294 / 100) = Finite (7284572397271777 / 562949953421312)"
  by (subst to_double_eqI' [where e = 3 and n = 7284572397271777]) simp_all

lemma double_20_100: "to_double (20 / 100) = Finite (3602879701896397 / 18014398509481984)"
  by (subst to_double_eqI' [where e = "- 3" and n = 7205759403792794]) simp_all

lemma double_19_100: "to_double (19 / 100) = Finite (3422735716801577 / 18014398509481984)"
  by (subst to_double_eqI' [where e = "- 3" and n = 6845471433603154]) simp_all

lemma spec_round_995: "spec_round (995 / 100 * 13 / 10) 2 = 1294 / 100"
proof -
  have "round (995 / 100 * 13 / 10 * 10 ^ 2 :: rat) = 1294"
    by (rule round_unique) simp_all
  then show ?thesis by (simp add: spec_round_def)
qed

lemma spec_round_015:
  "spec_round (5404319552844595 / 36028797018963968 * 13 / 10) 2 = 19 / 100"
proof -
  have "round (5404319552844595 / 36028797018963968 * 13 / 10 * 10 ^ 2 :: rat) = 19"
    by (rule round_unique) simp_all
  then show ?thesis by (simp add: spec_round_def)
qed

section \<open>Facts about the run\<close>

text \<open>\<open>spec_round x 2\<close> is a whole number of hundredths, at most half a hundredth
  away from \<open>x\<close>.\<close>

lemma spec_round_nearest:
  "\<exists>k::int. spec_round x 2 = of_int k / 100 \<and> \<bar>spec_round x 2 - x\<bar> \<le> 1 / 200"
proof -
  have "\<bar>of_int (round (x * 100)) - x * 100\<bar> \<le> 1 / 2"
    by (rule of_int_round_abs_le)
  then have "\<bar>of_int (round (x * 100)) / 100 - x\<bar> \<le> 1 / 200"
    by (simp add: abs_le_iff field_simps)
  then show ?thesis
    by (auto simp: spec_round_def)
qed

text \<open>The run that reaches the statistics call and gets an answer from it.\<close>

lemma run_matched:
  assumes "aiNormalize e m = (ev1, Inr clean)"
    and "discogsSearch e clean = (ev2, Inr (Some srch))"
    and "pick_first srch = Some first"
    and "discogsReleaseStats e (cand_id first) = (ev3, Inr st)"
  shows "\<exists>x. estimateFromMetadata e m =
           (ev1 @ [Sleep 150] @ ev2 @ [Sleep 150] @ ev3,
            Inr \<lparr>source = ''discogs'', lowest_price = lowest_of st, median_price = None,
                 estimated_price = estimated_of (lowest_of st) (count_of st),
                 extras = x\<rparr>)"
  using assms by (simp add: estimateFromMetadata_def Let_def)

text \<open>Every run that returns a result returns one of this form (\<open>st\<close> is
  \<open>None\<close> when no candidate was found).\<close>

lemma run_Inr:
  assumes "snd (estimateFromMetadata e m) = Inr r"
  shows "\<exists>st x. r = \<lparr>source = ''discogs'', lowest_price = lowest_of st, median_price = None,
                     estimated_price = estimated_of (lowest_of st) (count_of st), extras = x\<rparr>"
proof -
  obtain ev1 n where n: "aiNormalize e m = (ev1, n)" by (cases "aiNormalize e m")
  show ?thesis
  proof (cases n)
    case (Inl err)
    with n assms show ?thesis by (simp add: estimateFromMetadata_def)
  next
    case (Inr clean)
    obtain ev2 s where s: "discogsSearch e clean = (ev2, s)" by (cases "discogsSearch e clean")
    show ?thesis
    proof (cases s)
      case (Inl err)
      with n Inr s assms show ?thesis by (simp add: estimateFromMetadata_def)
    next
      case sr: (Inr so)
      show ?thesis
      proof (cases so)
        case None
        with n Inr s sr assms show ?thesis by (simp add: estimateFromMetadata_def)
      next
        case (Some srch)
        show ?thesis
        proof (cases "pick_first srch")
          case None
          with n Inr s sr Some assms
          have "r = \<lparr>source = ''discogs'', lowest_price = lowest_of None, median_price = None,
                     estimated_price = estimated_of (lowest_of None) (count_of None),
                     extras = NoResults ''no results'' clean (search_count srch)\<rparr>"
            by (simp add: estimateFromMetadata_def lowest_of_def estimated_of_def)
          then show ?thesis by blast
        next
          case first: (Some first)
          obtain ev3 t where t: "discogsReleaseStats e (cand_id first) = (ev3, t)"
            by (cases "discogsReleaseStats e (cand_id first)")
          show ?thesis
          proof (cases t)
            case (Inl err)
            with n Inr s sr Some first t assms show ?thesis
              by (simp add: estimateFromMetadata_def)
          next
            case st: (Inr st)
            from run_matched [of e m ev1 clean ev2 srch first ev3 st] n Inr s sr Some first t st
            obtain x where "snd (estimateFromMetadata e m) =
                Inr \<lparr>source = ''discogs'', lowest_price = lowest_of st, median_price = None,
                     estimated_price = estimated_of (lowest_of st) (count_of st), extras = x\<rparr>"
              by auto
            with assms have "r = \<lparr>source = ''discogs'', lowest_price = lowest_of st, median_price = None,
                     estimated_price = estimated_of (lowest_of st) (count_of st), extras = x\<rparr>"
              by simp
            then show ?thesis by blast
          qed
        qed
      qed
    qed
  qed
qed

text \<open>The scenario, step by step.\<close>

lemma scenario_norm: "aiNormalize env_scenario meta_AB = ([], Inr meta_AB)"
  by (simp add: aiNormalize_def env_scenario_def truthy_def)

lemma scenario_params:
  "search_params meta_AB = [(''artist'', ''Artist A''), (''release_title'', ''Title B'')]"
  by (simp add: search_params_def meta_AB_def)

lemma scenario_search:
  "discogsSearch env_scenario meta_AB =
     ([ReqSearch [(''artist'', ''Artist A''), (''release_title'', ''Title B'')]], Inr (Some search_one))"
  by (simp add: discogsSearch_def scenario_params URLSearchParams_keys_def env_scenario_def ok_def)

lemma scenario_pick: "pick_first search_one = Some release_42"
  by (simp add: pick_first_def search_one_def release_42_def)

lemma scenario_stats:
  "discogsReleaseStats env_scenario (cand_id release_42) = ([ReqStats 42], Inr (Some stats_10_8))"
  by (simp add: discogsReleaseStats_def release_42_def env_scenario_def ok_def)

lemma stats_404_norm: "aiNormalize env_stats_404 meta_AB = ([], Inr meta_AB)"
  by (simp add: aiNormalize_def env_stats_404_def env_scenario_def truthy_def)

lemma stats_404_search:
  "discogsSearch env_stats_404 meta_AB =
     ([ReqSearch [(''artist'', ''Artist A''), (''release_title'', ''Title B'')]], Inr (Some search_one))"
  by (simp add: discogsSearch_def scenario_params URLSearchParams_keys_def env_stats_404_def
      env_scenario_def ok_def)

lemma stats_404_stats:
  "discogsReleaseStats env_stats_404 (cand_id release_42) = ([ReqStats 42], Inr None)"
  by (simp add: discogsReleaseStats_def release_42_def env_stats_404_def env_scenario_def ok_def)

section \<open>The price derivation\<close>

lemma estimated_of_Some: "estimated_of (Some L) C = Some (if C > 5 then uplift L else L)"
  by (simp add: estimated_of_def)

lemma env_995_norm: "aiNormalize env_995 meta_AB = ([], Inr meta_AB)"
  by (simp add: aiNormalize_def env_995_def env_scenario_def truthy_def)

lemma env_995_search:
  "discogsSearch env_995 meta_AB =
     ([ReqSearch [(''artist'', ''Artist A''), (''release_title'', ''Title B'')]], Inr (Some search_one))"
  by (simp add: discogsSearch_def scenario_params URLSearchParams_keys_def env_995_def
      env_scenario_def ok_def)

lemma env_995_stats:
  "discogsReleaseStats env_995 (cand_id release_42) =
     ([ReqStats 42],
      Inr (Some \<lparr>stats_num_for_sale = Some 8,
        stats_lowest_price =
          Some \<lparr>price_value = Some (to_double (995 / 100)), price_currency = Some ''USD''\<rparr>\<rparr>))"
  by (simp add: discogsReleaseStats_def release_42_def env_995_def ok_def)

lemma env_015_norm: "aiNormalize env_015 meta_AB = ([], Inr meta_AB)"
  by (simp add: aiNormalize_def env_015_def env_scenario_def truthy_def)

lemma env_015_search:
  "discogsSearch env_015 meta_AB =
     ([ReqSearch [(''artist'', ''Artist A''), (''release_title'', ''Title B'')]], Inr (Some search_one))"
  by (simp add: discogsSearch_def scenario_params URLSearchParams_keys_def env_015_def
      env_scenario_def ok_def)

lemma env_015_stats:
  "discogsReleaseStats env_015 (cand_id release_42) =
     ([ReqStats 42],
      Inr (Some \<lparr>stats_num_for_sale = Some 8,
        stats_lowest_price =
          Some \<lparr>price_value = Some (to_double (15 / 100)), price_currency = Some ''USD''\<rparr>\<rparr>))"
  by (simp add: discogsReleaseStats_def release_42_def env_015_def ok_def)

text \<open>
  Claim C1, as amended. In every run whose statistics lookup returns a lowest price \<open>L\<close>
  and a count of active listings \<open>C\<close>, the lowest price of the result is \<open>L\<close>, and the
  estimated price is \<open>L\<close> itself when \<open>C \<le> 5\<close> and
  \<^verbatim>\<open>Math.round(L * 1.3 * 100) / 100\<close>, computed in doubles, when \<open>C > 5\<close>. For a price
  of at most \<open>10\<^sup>9\<close> that value is the double nearest to a whole number \<open>k\<close> of
  hundredths with \<open>k\<close> within 0.501 of \<open>130 \<times> L\<close>; it is the double nearest to
  \<open>L \<times> 1.3\<close> rounded to two decimal places whenever \<open>130 \<times> L\<close> is more than a
  thousandth away from the middle between two integers.
\<close>

theorem price_uplift_rule:
  assumes "aiNormalize e m = (ev1, Inr clean)"
    and "discogsSearch e clean = (ev2, Inr (Some srch))"
    and "pick_first srch = Some first"
    and "discogsReleaseStats e (cand_id first) = (ev3, Inr (Some st))"
    and "stats_lowest_price st = Some p" and "price_value p = Some L"
    and "stats_num_for_sale st = Some C"
  shows "\<exists>r. snd (estimateFromMetadata e m) = Inr r \<and> lowest_price r = Some L \<and>
           estimated_price r =
             Some (if C > 5
                   then js_div (Math_round (js_mul (js_mul L (to_double (13 / 10))) (Finite 100)))
                          (Finite 100)
                   else L) \<and>
           (\<forall>l. C > 5 \<longrightarrow> L = Finite l \<longrightarrow> \<bar>l\<bar> \<le> 10 ^ 9 \<longrightarrow>
              (\<exists>k. estimated_price r = Some (to_double (of_int k / 100)) \<and>
                   \<bar>of_int k - 130 * l\<bar> \<le> 1 / 2 + 1 / 1000) \<and>
              (1 / 1000 < \<bar>130 * l - of_int \<lfloor>130 * l\<rfloor> - 1 / 2\<bar> \<longrightarrow>
                 estimated_price r = Some (to_double (spec_round (l * 13 / 10) 2))))"
proof -
  have l: "lowest_of (Some st) = Some L"
    using assms(5,6) by (simp add: lowest_of_def)
  have c: "count_of (Some st) = C"
    using assms(7) by (simp add: count_of_def)
  from run_matched [OF assms(1-4)] obtain x where
    "estimateFromMetadata e m =
       (ev1 @ [Sleep 150] @ ev2 @ [Sleep 150] @ ev3,
        Inr \<lparr>source = ''discogs'', lowest_price = lowest_of (Some st), median_price = None,
             estimated_price = estimated_of (lowest_of (Some st)) (count_of (Some st)),
             extras = x\<rparr>)"
    by blast
  then have run: "snd (estimateFromMetadata e m) =
        Inr \<lparr>source = ''discogs'', lowest_price = Some L, median_price = None,
             estimated_price = Some (if C > 5 then uplift L else L), extras = x\<rparr>"
    by (simp add: l c estimated_of_Some)
  have "(\<exists>k. uplift (Finite l) = to_double (of_int k / 100) \<and>
              \<bar>of_int k - 130 * l\<bar> \<le> 1 / 2 + 1 / 1000) \<and>
        (1 / 1000 < \<bar>130 * l - of_int \<lfloor>130 * l\<rfloor> - 1 / 2\<bar> \<longrightarrow>
           uplift (Finite l) = to_double (spec_round (l * 13 / 10) 2))"
    if "\<bar>l\<bar> \<le> 10 ^ 9" for l
    using uplift_cents [OF that] by blast
  with run show ?thesis
    by (simp add: uplift_def)
qed

text \<open>The scenario of the specification: lowest price 10.00 with 8 active listings gives
  13.00, which is also the double nearest to \<open>10 \<times> 1.3\<close> rounded to two places.\<close>

theorem price_uplift_rule_witness:
  "\<exists>r. snd (estimateFromMetadata env_scenario meta_AB) = Inr r \<and>
       lowest_price r = Some (Finite 10) \<and> estimated_price r = Some (Finite 13) \<and>
       estimated_price r = Some (to_double (spec_round (10 * 13 / 10) 2))"
proof -
  have p: "price_value \<lparr>price_value = Some (Finite 10), price_currency = Some ''USD''\<rparr>
      = Some (Finite 10)"
    by simp
  have s: "stats_lowest_price stats_10_8
      = Some \<lparr>price_value = Some (Finite 10), price_currency = Some ''USD''\<rparr>"
    "stats_num_for_sale stats_10_8 = Some 8"
    by (simp_all add: stats_10_8_def)
  from price_uplift_rule [OF scenario_norm scenario_search scenario_pick scenario_stats s(1) p s(2)]
  obtain r where r: "snd (estimateFromMetadata env_scenario meta_AB) = Inr r"
    and l: "lowest_price r = Some (Finite 10)"
    and e: "estimated_price r =
      Some (js_div (Math_round (js_mul (js_mul (Finite 10) (to_double (13 / 10))) (Finite 100)))
        (Finite 100))"
    and n: "\<And>l. Finite 10 = Finite l \<Longrightarrow> \<bar>l\<bar> \<le> 10 ^ 9 \<Longrightarrow>
        1 / 1000 < \<bar>130 * l - of_int \<lfloor>130 * l\<rfloor> - 1 / 2\<bar> \<Longrightarrow>
        estimated_price r = Some (to_double (spec_round (l * 13 / 10) 2))"
    by auto
  have "estimated_price r = Some (Finite 13)"
    using e uplift_10 by (simp add: uplift_def)
  moreover have "estimated_price r = Some (to_double (spec_round (10 * 13 / 10) 2))"
    by (rule n) simp_all
  ultimately show ?thesis
    using r l by blast
qed

text \<open>
  Claim C1 as stated fails, whichever number its \<open>L\<close> is. Where the statistics carry
  9.95 and 8 listings, the code returns 12.93 (the double nearest to it), not
  \<open>9.95 \<times> 1.3 = 12.935\<close> rounded to two places, 12.94: in doubles
  \<^verbatim>\<open>9.95 * 1.3 * 100\<close> is 1293.4999999999998. Where they carry 0.15, which is read as a
  double a little below 0.15, the code returns 0.20, not that double times 1.3 rounded to two
  places, 0.19: in doubles \<^verbatim>\<open>0.15 * 1.3 * 100\<close> is 19.5.
\<close>

theorem price_uplift_rule_counterexample:
  "map_sum id lowest_price (snd (estimateFromMetadata env_995 meta_AB))
     = Inr (Some (to_double (995 / 100))) \<and>
   map_sum id estimated_price (snd (estimateFromMetadata env_995 meta_AB))
     = Inr (Some (to_double (1293 / 100))) \<and>
   to_double (1293 / 100) \<noteq> to_double (spec_round (995 / 100 * 13 / 10) 2) \<and>
   map_sum id lowest_price (snd (estimateFromMetadata env_015 meta_AB))
     = Inr (Some (Finite (5404319552844595 / 36028797018963968))) \<and>
   map_sum id estimated_price (snd (estimateFromMetadata env_015 meta_AB))
     = Inr (Some (to_double (20 / 100))) \<and>
   to_double (20 / 100)
     \<noteq> to_double (spec_round (5404319552844595 / 36028797018963968 * 13 / 10) 2)"
proof (intro conjI)
  from run_matched [OF env_995_norm env_995_search scenario_pick env_995_stats]
  obtain x where run: "snd (estimateFromMetadata env_995 meta_AB) =
      Inr \<lparr>source = ''discogs'', lowest_price = Some (to_double (995 / 100)), median_price = None,
           estimated_price = Some (uplift (to_double (995 / 100))), extras = x\<rparr>"
    by (auto simp: lowest_of_def count_of_def estimated_of_Some)
  show "map_sum id lowest_price (snd (estimateFromMetadata env_995 meta_AB))
     = Inr (Some (to_double (995 / 100)))"
    unfolding run by simp
  show "map_sum id estimated_price (snd (estimateFromMetadata env_995 meta_AB))
     = Inr (Some (to_double (1293 / 100)))"
    unfolding run uplift_995 by simp
  show "to_double (1293 / 100) \<noteq> to_double (spec_round (995 / 100 * 13 / 10) 2)"
    by (simp only: spec_round_995 double_1293_100 double_1294_100) simp
next
  from run_matched [OF env_015_norm env_015_search scenario_pick env_015_stats]
  obtain x where run: "snd (estimateFromMetadata env_015 meta_AB) =
      Inr \<lparr>source = ''discogs'', lowest_price = Some (to_double (15 / 100)), median_price = None,
           estimated_price = Some (uplift (to_double (15 / 100))), extras = x\<rparr>"
    by (auto simp: lowest_of_def count_of_def estimated_of_Some)
  show "map_sum id lowest_price (snd (estimateFromMetadata env_015 meta_AB))
     = Inr (Some (Finite (5404319552844595 / 36028797018963968)))"
    unfolding run double_15_100 by simp
  show "map_sum id estimated_price (snd (estimateFromMetadata env_015 meta_AB))
     = Inr (Some (to_double (20 / 100)))"
    unfolding run uplift_015 by simp
  show "to_double (20 / 100)
     \<noteq> to_double (spec_round (5404319552844595 / 36028797018963968 * 13 / 10) 2)"
    by (simp only: spec_round_015 double_20_100 double_19_100) simp
qed

text \<open>
  Claim C2. In every result that the estimator returns the median price is null, and a null
  lowest price comes with a null estimated price; in particular, when the statistics lookup
  yields no lowest price (no statistics, no \<^verbatim>\<open>lowest_price\<close> object, or no
  \<^verbatim>\<open>value\<close> in it), both the lowest and the estimated price of the result are null.
\<close>

theorem null_propagation:
  assumes "snd (estimateFromMetadata e m) = Inr r"
  shows "median_price r = None \<and>
         (lowest_price r = None \<longrightarrow> estimated_price r = None) \<and>
         (\<forall>ev1 clean ev2 srch first ev3 st.
            aiNormalize e m = (ev1, Inr clean) \<longrightarrow>
            discogsSearch e clean = (ev2, Inr (Some srch)) \<longrightarrow>
            pick_first srch = Some first \<longrightarrow>
            discogsReleaseStats e (cand_id first) = (ev3, Inr st) \<longrightarrow>
            lowest_of st = None \<longrightarrow>
            lowest_price r = None \<and> estimated_price r = None)"
proof (intro conjI allI impI)
  show "median_price r = None"
    using run_Inr [OF assms] by auto
next
  assume "lowest_price r = None"
  then show "estimated_price r = None"
    using run_Inr [OF assms] by (auto simp: estimated_of_def)
next
  fix ev1 clean ev2 srch first ev3 st
  assume a: "aiNormalize e m = (ev1, Inr clean)"
    "discogsSearch e clean = (ev2, Inr (Some srch))"
    "pick_first srch = Some first"
    "discogsReleaseStats e (cand_id first) = (ev3, Inr st)"
    and n: "lowest_of st = None"
  from run_matched [OF a] assms n
  show "lowest_price r = None" "estimated_price r = None"
    by (auto simp: estimated_of_def)
qed

theorem null_propagation_witness:
  "\<exists>r. snd (estimateFromMetadata env_stats_404 meta_AB) = Inr r \<and> median_price r = None \<and>
       lowest_price r = None \<and> estimated_price r = None"
proof -
  from run_matched [OF stats_404_norm stats_404_search scenario_pick stats_404_stats]
  obtain r where r: "snd (estimateFromMetadata env_stats_404 meta_AB) = Inr r"
    by auto
  have "lowest_of None = None"
    by (simp add: lowest_of_def)
  with null_propagation [OF r] stats_404_norm stats_404_search scenario_pick stats_404_stats
  have "median_price r = None \<and> lowest_price r = None \<and> estimated_price r = None"
    by blast
  with r show ?thesis by blast
qed

section \<open>No candidate\<close>

lemma aiNormalize_events: "fst (aiNormalize e m) = [] \<or> fst (aiNormalize e m) = [ReqOpenAI m]"
  by (simp add: aiNormalize_def split: fetched.split parsed.split)

lemma discogsSearch_events:
  "fst (discogsSearch e c) = [] \<or> fst (discogsSearch e c) = [ReqSearch (search_params c)]"
  by (simp add: discogsSearch_def Let_def split: fetched.split parsed.split)

lemma pick_first_empty: "results s = Some [] \<Longrightarrow> pick_first s = None"
  by (simp add: pick_first_def)

lemma run_no_candidate:
  assumes "aiNormalize e m = (ev1, Inr clean)"
    and "discogsSearch e clean = (ev2, Inr (Some srch))"
    and "pick_first srch = None"
  shows "estimateFromMetadata e m =
           (ev1 @ [Sleep 150] @ ev2,
            Inr \<lparr>source = ''discogs'', lowest_price = None, median_price = None,
                 estimated_price = None,
                 extras = NoResults ''no results'' clean (search_count srch)\<rparr>)"
  using assms by (simp add: estimateFromMetadata_def)

lemma search_count_reported:
  "search_pagination s = Some pg \<Longrightarrow> items pg = Some n \<Longrightarrow> search_count s = n"
  by (simp add: search_count_def)

text \<open>
  Claim C3. When the search returns an empty candidate list, the run ends there: no
  statistics request is made, the three price fields of the result are null, and its
  extras are the note \<open>no results\<close>, the query (the metadata the search was made with)
  and the total count that the search reported (0 when it reported none).
\<close>

theorem no_candidate_path:
  assumes "aiNormalize e m = (ev1, Inr clean)"
    and "discogsSearch e clean = (ev2, Inr (Some srch))"
    and "results srch = Some []"
  shows "\<exists>r. estimateFromMetadata e m = (ev1 @ [Sleep 150] @ ev2, Inr r) \<and>
           lowest_price r = None \<and> median_price r = None \<and> estimated_price r = None \<and>
           extras r = NoResults ''no results'' clean (search_count srch) \<and>
           (\<forall>pg n. search_pagination srch = Some pg \<longrightarrow> items pg = Some n \<longrightarrow>
              extras_search_count (extras r) = n) \<and>
           (\<forall>i. ReqStats i \<notin> set (fst (estimateFromMetadata e m)))"
proof -
  let ?r = "\<lparr>source = ''discogs'', lowest_price = None, median_price = None,
                 estimated_price = None,
                 extras = NoResults ''no results'' clean (search_count srch)\<rparr>"
  have run: "estimateFromMetadata e m = (ev1 @ [Sleep 150] @ ev2, Inr ?r)"
    by (rule run_no_candidate [OF assms(1,2) pick_first_empty [OF assms(3)]])
  have e1: "ev1 = [] \<or> ev1 = [ReqOpenAI m]"
    using aiNormalize_events [of e m] assms(1) by simp
  have e2: "ev2 = [] \<or> ev2 = [ReqSearch (search_params clean)]"
    using discogsSearch_events [of e clean] assms(2) by simp
  have "\<forall>i. ReqStats i \<notin> set (ev1 @ [Sleep 150] @ ev2)"
    using e1 e2 by auto
  with run show ?thesis
    by (simp add: search_count_reported)
qed

lemma no_results_norm: "aiNormalize env_no_results meta_unknown = ([], Inr meta_unknown)"
  by (simp add: aiNormalize_def env_no_results_def env_scenario_def truthy_def)

lemma no_results_search:
  "discogsSearch env_no_results meta_unknown =
     ([ReqSearch [(''artist'', ''Unknown'')]],
      Inr (Some \<lparr>results = Some [], search_pagination = Some \<lparr>items = Some 0\<rparr>\<rparr>))"
  by (simp add: discogsSearch_def search_params_def meta_unknown_def URLSearchParams_keys_def
      env_no_results_def env_scenario_def ok_def)

text \<open>The specification's scenario: metadata with artist \<open>Unknown\<close> only, no
  candidates.\<close>

theorem no_candidate_path_witness:
  "\<exists>r. estimateFromMetadata env_no_results meta_unknown =
         ([Sleep 150, ReqSearch [(''artist'', ''Unknown'')]], Inr r) \<and>
       lowest_price r = None \<and> median_price r = None \<and> estimated_price r = None \<and>
       extras r = NoResults ''no results'' meta_unknown 0"
  using no_candidate_path [OF no_results_norm no_results_search]
  by (auto simp: search_count_def)

section \<open>Candidate selection\<close>

text \<open>
  Claim C5. From the list of results the estimator takes the first entry whose type is
  \<open>release\<close>; when no entry has that type it takes the first entry of the list (and
  none when the list is empty).
\<close>

theorem candidate_selection:
  assumes "results s = Some rs"
  shows "(\<forall>i<length rs. cand_type (rs ! i) = Some ''release'' \<longrightarrow>
            (\<forall>j<i. cand_type (rs ! j) \<noteq> Some ''release'') \<longrightarrow> pick_first s = Some (rs ! i)) \<and>
         ((\<forall>r\<in>set rs. cand_type r \<noteq> Some ''release'') \<longrightarrow>
            pick_first s = (case rs of [] \<Rightarrow> None | r # _ \<Rightarrow> Some r))"
proof (intro conjI allI impI)
  fix i
  assume i: "i < length rs" and t: "cand_type (rs ! i) = Some ''release''"
    and least: "\<forall>j<i. cand_type (rs ! j) \<noteq> Some ''release''"
  then have "find (\<lambda>r. cand_type r = Some ''release'') rs = Some (rs ! i)"
    unfolding find_Some_iff by blast
  with assms show "pick_first s = Some (rs ! i)"
    by (simp add: pick_first_def)
next
  assume "\<forall>r\<in>set rs. cand_type r \<noteq> Some ''release''"
  then have "find (\<lambda>r. cand_type r = Some ''release'') rs = None"
    unfolding find_None_iff by blast
  with assms show "pick_first s = (case rs of [] \<Rightarrow> None | r # _ \<Rightarrow> Some r)"
    by (simp add: pick_first_def)
qed

text \<open>A master, a release and an artist: the release is taken. A master and an artist:
  the master, being first, is taken.\<close>

theorem candidate_selection_witness:
  "pick_first \<lparr>results = Some [master_7, release_42, artist_9], search_pagination = None\<rparr> = Some release_42 \<and>
   pick_first \<lparr>results = Some [master_7, artist_9], search_pagination = None\<rparr> = Some master_7"
proof
  have "results \<lparr>results = Some [master_7, release_42, artist_9], search_pagination = None\<rparr>
          = Some [master_7, release_42, artist_9]"
    by simp
  from candidate_selection [OF this]
  have "1 < length [master_7, release_42, artist_9] \<longrightarrow>
        cand_type ([master_7, release_42, artist_9] ! 1) = Some ''release'' \<longrightarrow>
        (\<forall>j<1. cand_type ([master_7, release_42, artist_9] ! j) \<noteq> Some ''release'') \<longrightarrow>
        pick_first \<lparr>results = Some [master_7, release_42, artist_9], search_pagination = None\<rparr>
          = Some ([master_7, release_42, artist_9] ! 1)"
    by blast
  then show "pick_first \<lparr>results = Some [master_7, release_42, artist_9], search_pagination = None\<rparr>
          = Some release_42"
    by (simp add: master_7_def release_42_def)
next
  have "results \<lparr>results = Some [master_7, artist_9], search_pagination = None\<rparr>
          = Some [master_7, artist_9]"
    by simp
  from candidate_selection [OF this]
  show "pick_first \<lparr>results = Some [master_7, artist_9], search_pagination = None\<rparr> = Some master_7"
    by (simp add: master_7_def artist_9_def release_42_def)
qed

section \<open>The normalizer\<close>

lemma aiNormalize_rewritten:
  assumes "truthy (OPENAI_API_KEY e)" and "fetch_openai e m = Resolved res" and "ok res"
    and "json res = JValue d" and "JSON_parse e (content_or_default d) = JValue p"
  shows "aiNormalize e m =
           ([ReqOpenAI m],
            Inr \<lparr>artist = js_or (reply_artist p) (artist m),
                 title = js_or (reply_title p) (title m),
                 label = label m, catno = catno m, barcode = barcode m\<rparr>)"
  using assms by (simp add: aiNormalize_def)

text \<open>
  Claim C7. Whatever the normalizer returns has the label, the catalogue number and the
  barcode of its input; only artist and title can differ.
\<close>

theorem normalizer_frame:
  assumes "snd (aiNormalize e m) = Inr c"
  shows "label c = label m \<and> catno c = catno m \<and> barcode c = barcode m"
  using assms
  by (auto simp: aiNormalize_def split: if_splits fetched.splits parsed.splits)

lemma rewrite_norm:
  "aiNormalize env_rewrite meta_noisy =
     ([ReqOpenAI meta_noisy], Inr (meta_noisy\<lparr>artist := Some ''Artist A''\<rparr>))"
  by (simp add: aiNormalize_def env_rewrite_def env_scenario_def truthy_def ok_def
      content_or_default_def JSON_parse_def js_or_def meta_noisy_def)

text \<open>The assistant rewrites the artist of the noisy metadata; label, catalogue number
  and barcode stay.\<close>

theorem normalizer_frame_witness:
  "snd (aiNormalize env_rewrite meta_noisy) = Inr (meta_noisy\<lparr>artist := Some ''Artist A''\<rparr>) \<and>
   label (meta_noisy\<lparr>artist := Some ''Artist A''\<rparr>) = Some ''Label L'' \<and>
   catno (meta_noisy\<lparr>artist := Some ''Artist A''\<rparr>) = Some ''CAT 1'' \<and>
   barcode (meta_noisy\<lparr>artist := Some ''Artist A''\<rparr>) = Some ''0123456789''"
proof -
  have r: "snd (aiNormalize env_rewrite meta_noisy) = Inr (meta_noisy\<lparr>artist := Some ''Artist A''\<rparr>)"
    by (simp add: rewrite_norm)
  from normalizer_frame [OF r] r show ?thesis
    by (simp add: meta_noisy_def)
qed

text \<open>
  Claim C10. When the assistant's reply parses to an object, each of artist and title is
  taken from the reply if it is a non-empty string there, and from the original metadata
  if it is missing or empty there, one field independently of the other: the output can
  mix a rewritten field with an original one.
\<close>

theorem normalizer_field_fallback:
  assumes "truthy (OPENAI_API_KEY e)" and "fetch_openai e m = Resolved res" and "ok res"
    and "json res = JValue d" and "JSON_parse e (content_or_default d) = JValue p"
  shows "\<exists>c. snd (aiNormalize e m) = Inr c \<and>
           (reply_artist p = None \<or> reply_artist p = Some [] \<longrightarrow> artist c = artist m) \<and>
           (\<forall>a. reply_artist p = Some a \<longrightarrow> a \<noteq> [] \<longrightarrow> artist c = Some a) \<and>
           (reply_title p = None \<or> reply_title p = Some [] \<longrightarrow> title c = title m) \<and>
           (\<forall>t. reply_title p = Some t \<longrightarrow> t \<noteq> [] \<longrightarrow> title c = Some t)"
  unfolding aiNormalize_rewritten [OF assms]
  by (auto simp: js_or_def truthy_def)

text \<open>The reply has an artist and an empty title: the artist is the reply's, the title
  the original one.\<close>

theorem normalizer_field_fallback_witness:
  "\<exists>c. snd (aiNormalize env_rewrite meta_noisy) = Inr c \<and>
       artist c = Some ''Artist A'' \<and> title c = Some ''Title B''"
proof -
  have k: "truthy (OPENAI_API_KEY env_rewrite)"
    by (simp add: env_rewrite_def truthy_def)
  have f: "fetch_openai env_rewrite meta_noisy = Resolved \<lparr>status = 200, body_text = [],
          json = JValue \<lparr>choices = Some [\<lparr>message = Some \<lparr>content = Some ''reply''\<rparr>\<rparr>]\<rparr>\<rparr>"
    by (simp add: env_rewrite_def)
  have o: "ok \<lparr>status = 200, body_text = [],
          json = JValue \<lparr>choices = Some [\<lparr>message = Some \<lparr>content = Some ''reply''\<rparr>\<rparr>]\<rparr>\<rparr>"
    by (simp add: ok_def)
  have j: "json \<lparr>status = 200, body_text = [],
          json = JValue \<lparr>choices = Some [\<lparr>message = Some \<lparr>content = Some ''reply''\<rparr>\<rparr>]\<rparr>\<rparr>
      = JValue \<lparr>choices = Some [\<lparr>message = Some \<lparr>content = Some ''reply''\<rparr>\<rparr>]\<rparr>"
    by simp
  have p: "JSON_parse env_rewrite
        (content_or_default \<lparr>choices = Some [\<lparr>message = Some \<lparr>content = Some ''reply''\<rparr>\<rparr>]\<rparr>)
      = JValue \<lparr>reply_artist = Some ''Artist A'', reply_title = Some []\<rparr>"
    by (simp add: JSON_parse_def content_or_default_def env_rewrite_def)
  from normalizer_field_fallback [OF k f o j p]
  obtain c where c: "snd (aiNormalize env_rewrite meta_noisy) = Inr c"
    and a: "\<forall>a. Some ''Artist A'' = Some a \<longrightarrow> a \<noteq> [] \<longrightarrow> artist c = Some a"
    and t: "title c = title meta_noisy"
    by auto
  from a have "artist c = Some ''Artist A''" by simp
  moreover from t have "title c = Some ''Title B''" by (simp add: meta_noisy_def)
  ultimately show ?thesis using c by blast
qed

section \<open>The search query\<close>

text \<open>The parameters in closed form: one pair for each non-empty field, in the order
  artist, title, catalogue number, barcode.\<close>

lemma search_params_eq:
  "search_params m =
     (if truthy (artist m) then [(''artist'', the (artist m))] else []) @
     (if truthy (title m) then [(''release_title'', the (title m))] else []) @
     (if truthy (catno m) then [(''catno'', the (catno m))] else []) @
     (if truthy (barcode m) then [(''barcode'', the (barcode m))] else [])"
  by (simp add: search_params_def truthy_def Let_def split: option.split)

lemma param_chunk:
  "(k, v) \<in> set (if truthy x then [(n, the x)] else []) \<longleftrightarrow> k = n \<and> x = Some v \<and> v \<noteq> []"
  by (cases x) (auto simp: truthy_def)

lemma search_params_set:
  "(k, v) \<in> set (search_params m) \<longleftrightarrow>
     (k = ''artist'' \<and> artist m = Some v \<and> v \<noteq> []) \<or>
     (k = ''release_title'' \<and> title m = Some v \<and> v \<noteq> []) \<or>
     (k = ''catno'' \<and> catno m = Some v \<and> v \<noteq> []) \<or>
     (k = ''barcode'' \<and> barcode m = Some v \<and> v \<noteq> [])"
  unfolding search_params_eq set_append Un_iff param_chunk by (rule refl)

lemma search_params_distinct: "distinct (map fst (search_params m))"
  unfolding search_params_eq by simp

lemma search_params_Nil:
  "search_params m = [] \<longleftrightarrow>
     \<not> (truthy (artist m) \<or> truthy (title m) \<or> truthy (catno m) \<or> truthy (barcode m))"
  unfolding search_params_eq by simp

lemma discogsSearch_skipped:
  "search_params m = [] \<Longrightarrow>
     discogsSearch e m = ([], Inr (Some \<lparr>results = Some [], search_pagination = None\<rparr>))"
  by (simp add: discogsSearch_def URLSearchParams_keys_def)

lemma discogsSearch_sent:
  "search_params m \<noteq> [] \<Longrightarrow> fst (discogsSearch e m) = [ReqSearch (search_params m)]"
  by (simp add: discogsSearch_def URLSearchParams_keys_def Let_def split: fetched.split parsed.split)

lemma run_search_skipped:
  assumes "aiNormalize e m0 = (ev1, Inr m)" and "search_params m = []"
  shows "estimateFromMetadata e m0 =
           (ev1 @ [Sleep 150],
            Inr \<lparr>source = ''discogs'', lowest_price = None, median_price = None,
                 estimated_price = None, extras = NoResults ''no results'' m 0\<rparr>)"
proof -
  have p: "pick_first \<lparr>results = Some [], search_pagination = None\<rparr> = None"
    by (simp add: pick_first_def)
  have c: "search_count \<lparr>results = Some [], search_pagination = None\<rparr> = 0"
    by (simp add: search_count_def)
  from run_no_candidate [OF assms(1) discogsSearch_skipped [OF assms(2)] p]
  show ?thesis by (simp add: c)
qed

text \<open>
  Claim C8. The query sent to the search endpoint has one parameter for each of artist,
  title (as \<open>release_title\<close>), catalogue number and barcode that is a non-empty string in
  the metadata the search is called with, and no other; when none of the four is non-empty,
  no search request is sent (an empty query never is), the search counts as one with no
  results, and the run returns the \<open>no results\<close> result.
\<close>

theorem search_query_fields:
  "(\<forall>k v. (k, v) \<in> set (search_params m) \<longleftrightarrow>
      (k = ''artist'' \<and> artist m = Some v \<and> v \<noteq> []) \<or>
      (k = ''release_title'' \<and> title m = Some v \<and> v \<noteq> []) \<or>
      (k = ''catno'' \<and> catno m = Some v \<and> v \<noteq> []) \<or>
      (k = ''barcode'' \<and> barcode m = Some v \<and> v \<noteq> [])) \<and>
   distinct (map fst (search_params m)) \<and>
   (if truthy (artist m) \<or> truthy (title m) \<or> truthy (catno m) \<or> truthy (barcode m)
    then fst (discogsSearch e m) = [ReqSearch (search_params m)]
    else discogsSearch e m = ([], Inr (Some \<lparr>results = Some [], search_pagination = None\<rparr>))) \<and>
   ReqSearch [] \<notin> set (fst (discogsSearch e m)) \<and>
   (\<forall>m0 ev1. aiNormalize e m0 = (ev1, Inr m) \<longrightarrow>
      \<not> (truthy (artist m) \<or> truthy (title m) \<or> truthy (catno m) \<or> truthy (barcode m)) \<longrightarrow>
      (\<forall>q. ReqSearch q \<notin> set (fst (estimateFromMetadata e m0))) \<and>
      (\<exists>r. snd (estimateFromMetadata e m0) = Inr r \<and> lowest_price r = None \<and>
           median_price r = None \<and> estimated_price r = None \<and>
           extras r = NoResults ''no results'' m 0))"
proof (intro conjI allI impI)
  fix k v
  show "(k, v) \<in> set (search_params m) \<longleftrightarrow>
      (k = ''artist'' \<and> artist m = Some v \<and> v \<noteq> []) \<or>
      (k = ''release_title'' \<and> title m = Some v \<and> v \<noteq> []) \<or>
      (k = ''catno'' \<and> catno m = Some v \<and> v \<noteq> []) \<or>
      (k = ''barcode'' \<and> barcode m = Some v \<and> v \<noteq> [])"
    by (rule search_params_set)
next
  show "distinct (map fst (search_params m))"
    by (rule search_params_distinct)
next
  show "if truthy (artist m) \<or> truthy (title m) \<or> truthy (catno m) \<or> truthy (barcode m)
    then fst (discogsSearch e m) = [ReqSearch (search_params m)]
    else discogsSearch e m = ([], Inr (Some \<lparr>results = Some [], search_pagination = None\<rparr>))"
  proof (cases "search_params m = []")
    case True
    then show ?thesis
      using discogsSearch_skipped [OF True, of e] by (simp add: search_params_Nil)
  next
    case False
    then show ?thesis
      using discogsSearch_sent [OF False, of e] by (simp add: search_params_Nil)
  qed
next
  show "ReqSearch [] \<notin> set (fst (discogsSearch e m))"
  proof (cases "search_params m = []")
    case True
    then show ?thesis by (simp add: discogsSearch_skipped)
  next
    case False
    then show ?thesis by (simp add: discogsSearch_sent)
  qed
next
  fix m0 ev1 q
  assume n: "aiNormalize e m0 = (ev1, Inr m)"
    and "\<not> (truthy (artist m) \<or> truthy (title m) \<or> truthy (catno m) \<or> truthy (barcode m))"
  then have "search_params m = []"
    by (simp add: search_params_Nil)
  note run = run_search_skipped [OF n this]
  have "ev1 = [] \<or> ev1 = [ReqOpenAI m0]"
    using aiNormalize_events [of e m0] n by simp
  then show "ReqSearch q \<notin> set (fst (estimateFromMetadata e m0))"
    unfolding run by auto
next
  fix m0 ev1
  assume n: "aiNormalize e m0 = (ev1, Inr m)"
    and "\<not> (truthy (artist m) \<or> truthy (title m) \<or> truthy (catno m) \<or> truthy (barcode m))"
  then have "search_params m = []"
    by (simp add: search_params_Nil)
  note run = run_search_skipped [OF n this]
  show "\<exists>r. snd (estimateFromMetadata e m0) = Inr r \<and> lowest_price r = None \<and>
           median_price r = None \<and> estimated_price r = None \<and>
           extras r = NoResults ''no results'' m 0"
    unfolding run by simp
qed

lemma blank_norm: "aiNormalize env_scenario meta_blank = ([], Inr meta_blank)"
  by (simp add: aiNormalize_def env_scenario_def truthy_def)

lemma blank_falsy:
  "\<not> (truthy (artist meta_blank) \<or> truthy (title meta_blank) \<or> truthy (catno meta_blank) \<or>
      truthy (barcode meta_blank))"
  by (simp add: meta_blank_def truthy_def)

lemma AB_truthy:
  "truthy (artist meta_AB) \<or> truthy (title meta_AB) \<or> truthy (catno meta_AB) \<or>
      truthy (barcode meta_AB)"
  by (simp add: meta_AB_def truthy_def)

text \<open>The scenario's metadata gives a query of two parameters; metadata with an empty
  artist, an empty barcode and a label only gives no request at all.\<close>

theorem search_query_fields_witness:
  "fst (discogsSearch env_scenario meta_AB) =
     [ReqSearch [(''artist'', ''Artist A''), (''release_title'', ''Title B'')]] \<and>
   discogsSearch env_scenario meta_blank =
     ([], Inr (Some \<lparr>results = Some [], search_pagination = None\<rparr>)) \<and>
   (\<exists>r. snd (estimateFromMetadata env_scenario meta_blank) = Inr r \<and>
        extras r = NoResults ''no results'' meta_blank 0)"
proof (intro conjI)
  from search_query_fields [of meta_AB env_scenario] AB_truthy
  have "fst (discogsSearch env_scenario meta_AB) = [ReqSearch (search_params meta_AB)]"
    by simp
  then show "fst (discogsSearch env_scenario meta_AB) =
     [ReqSearch [(''artist'', ''Artist A''), (''release_title'', ''Title B'')]]"
    by (simp add: scenario_params)
next
  from search_query_fields [of meta_blank env_scenario] blank_falsy
  show "discogsSearch env_scenario meta_blank =
     ([], Inr (Some \<lparr>results = Some [], search_pagination = None\<rparr>))"
    by simp
next
  from search_query_fields [of meta_blank env_scenario] blank_norm blank_falsy
  show "\<exists>r. snd (estimateFromMetadata env_scenario meta_blank) = Inr r \<and>
        extras r = NoResults ''no results'' meta_blank 0"
    by blast
qed

section \<open>The normalizer's fallback\<close>

lemma run_events_prefix:
  assumes "aiNormalize e m = (ev1, Inr clean)"
  shows "\<exists>evs. fst (estimateFromMetadata e m) = ev1 @ [Sleep 150] @ fst (discogsSearch e clean) @ evs"
  using assms
  by (simp add: estimateFromMetadata_def Let_def split: prod.split sum.split option.split)

lemma aiNormalize_fallback:
  assumes "\<not> truthy (OPENAI_API_KEY e) \<or>
     (\<exists>res. fetch_openai e m = Resolved res \<and>
        (\<not> ok res \<or> json res = JNull \<or>
         (\<exists>d. json res = JValue d \<and>
            (JSON_parse e (content_or_default d) = SyntaxError \<or>
             JSON_parse e (content_or_default d) = JNull))))"
  shows "snd (aiNormalize e m) = Inr m"
  using assms by (auto simp: aiNormalize_def)

text \<open>
  The paths on which the normalizer does fall back: when no API key is set (line 50), when
  the assistant answers with a status outside 200..299 (line 64), and when the assistant's
  reply is JSON but its content is not (line 76: the reply is \<^verbatim>\<open>null\<close>,
  \<^verbatim>\<open>JSON.parse\<close> of the content throws or gives \<^verbatim>\<open>null\<close>). On each of them
  the normalizer returns the original metadata and the search is made with it.
\<close>

theorem normalizer_fallback:
  assumes "\<not> truthy (OPENAI_API_KEY e) \<or>
     (\<exists>res. fetch_openai e m = Resolved res \<and>
        (\<not> ok res \<or> json res = JNull \<or>
         (\<exists>d. json res = JValue d \<and>
            (JSON_parse e (content_or_default d) = SyntaxError \<or>
             JSON_parse e (content_or_default d) = JNull))))"
  shows "snd (aiNormalize e m) = Inr m \<and> search_input e m = Some m \<and>
         (\<exists>evs. fst (estimateFromMetadata e m) =
            fst (aiNormalize e m) @ [Sleep 150] @ fst (discogsSearch e m) @ evs)"
proof -
  have r: "snd (aiNormalize e m) = Inr m"
    by (rule aiNormalize_fallback [OF assms])
  then have n: "aiNormalize e m = (fst (aiNormalize e m), Inr m)"
    by (metis prod.collapse)
  have "search_input e m = Some m"
    unfolding search_input_def by (subst n) simp
  with r run_events_prefix [OF n] show ?thesis
    by simp
qed

text \<open>No key; a key and a 500; a key, a 200 and content that does not parse.\<close>

theorem normalizer_fallback_witness:
  "search_input env_scenario meta_noisy = Some meta_noisy \<and>
   search_input env_openai_500 meta_noisy = Some meta_noisy \<and>
   search_input env_garbled meta_noisy = Some meta_noisy"
proof (intro conjI)
  have "\<not> truthy (OPENAI_API_KEY env_scenario)"
    by (simp add: env_scenario_def truthy_def)
  then show "search_input env_scenario meta_noisy = Some meta_noisy"
    using normalizer_fallback [of env_scenario meta_noisy] by blast
next
  have "fetch_openai env_openai_500 meta_noisy =
          Resolved \<lparr>status = 500, body_text = ''Internal Server Error'', json = SyntaxError\<rparr> \<and>
        \<not> ok \<lparr>status = 500, body_text = ''Internal Server Error'',
                json = SyntaxError :: chat_completion parsed\<rparr>"
    by (simp add: env_openai_500_def ok_def)
  then show "search_input env_openai_500 meta_noisy = Some meta_noisy"
    using normalizer_fallback [of env_openai_500 meta_noisy] by blast
next
  let ?d = "\<lparr>choices = Some [\<lparr>message = Some \<lparr>content = Some ''reply''\<rparr>\<rparr>]\<rparr>"
  have "fetch_openai env_garbled meta_noisy =
          Resolved \<lparr>status = 200, body_text = [], json = JValue ?d\<rparr> \<and>
        json \<lparr>status = 200, body_text = [], json = JValue ?d\<rparr> = JValue ?d \<and>
        JSON_parse env_garbled (content_or_default ?d) = SyntaxError"
    by (simp add: env_garbled_def env_rewrite_def JSON_parse_def content_or_default_def)
  then show "search_input env_garbled meta_noisy = Some meta_noisy"
    using normalizer_fallback [of env_garbled meta_noisy] by blast
qed

lemma processor_estimate_failed:
  assumes "select_record d i = Some (row # rows)"
    and "snd (estimateFromMetadata e row) = Inl err"
  shows "processor e d ''estimate'' i = Inl (EstimateFailed err)"
  using assms by (simp add: processor_def)

text \<open>
  Claim C6. Whenever the normalizer is unconfigured, its HTTP call returns a non-success
  status, or its response cannot be parsed, the search is made with the original metadata.
  The code does not do so where the assistant answers 200 with a body that is not JSON:
  \<^verbatim>\<open>res.json()\<close> of line 65 is called one line before the \<^verbatim>\<open>try\<close> block that
  makes the fallback, so the normalizer throws, the run fails without a search, and the
  worker's job fails with it.
\<close>

theorem unparsable_body_fails_run:
  "truthy (OPENAI_API_KEY env_bad_body) \<and>
   fetch_openai env_bad_body meta_noisy =
     Resolved \<lparr>status = 200, body_text = ''<html>'', json = SyntaxError\<rparr> \<and>
   estimateFromMetadata env_bad_body meta_noisy = ([ReqOpenAI meta_noisy], Inl JsonSyntaxError) \<and>
   search_input env_bad_body meta_noisy \<noteq> Some meta_noisy \<and>
   processor env_bad_body (db_one\<lparr>select_record := (\<lambda>_. Some [meta_noisy])\<rparr>) ''estimate'' 1
     = Inl (EstimateFailed JsonSyntaxError)"
proof -
  have run: "estimateFromMetadata env_bad_body meta_noisy
      = ([ReqOpenAI meta_noisy], Inl JsonSyntaxError)"
    by (simp add: env_bad_body_def env_rewrite_def env_scenario_def truthy_def
        estimateFromMetadata_def aiNormalize_def ok_def)
  have "processor env_bad_body (db_one\<lparr>select_record := (\<lambda>_. Some [meta_noisy])\<rparr>) ''estimate'' 1
     = Inl (EstimateFailed JsonSyntaxError)"
    by (rule processor_estimate_failed [where row = meta_noisy and rows = "[]"])
      (simp_all add: run)
  with run show ?thesis
    by (simp add: env_bad_body_def env_rewrite_def env_scenario_def truthy_def
        search_input_def aiNormalize_def ok_def)
qed

section \<open>Which failures fail the run\<close>

lemma discogsSearch_rejected:
  assumes "search_params c \<noteq> []" and "fetch_search e (search_params c) = Resolved res"
    and "\<not> ok res"
  shows "discogsSearch e c =
           ([ReqSearch (search_params c)], Inl (DiscogsSearchError (status res) (body_text res)))"
  using assms by (simp add: discogsSearch_def URLSearchParams_keys_def)

lemma run_search_failed:
  assumes "aiNormalize e m = (ev1, Inr clean)" and "discogsSearch e clean = (ev2, Inl err)"
  shows "estimateFromMetadata e m = (ev1 @ [Sleep 150] @ ev2, Inl err)"
  using assms by (simp add: estimateFromMetadata_def)

lemma run_stats_failed:
  assumes "aiNormalize e m = (ev1, Inr clean)"
    and "discogsSearch e clean = (ev2, Inr (Some srch))"
    and "pick_first srch = Some first"
    and "discogsReleaseStats e (cand_id first) = (ev3, Inl err)"
  shows "estimateFromMetadata e m = (ev1 @ [Sleep 150] @ ev2 @ [Sleep 150] @ ev3, Inl err)"
  using assms by (simp add: estimateFromMetadata_def)

lemma discogsReleaseStats_degraded:
  assumes "i = None \<or> i = Some 0 \<or>
           (\<exists>n res. i = Some n \<and> fetch_stats e n = Resolved res \<and> \<not> ok res)"
  shows "snd (discogsReleaseStats e i) = Inr None"
  using assms by (auto simp: discogsReleaseStats_def)

lemma discogsReleaseStats_no_response:
  assumes "i \<noteq> 0" and "fetch_stats e i = Rejected"
  shows "discogsReleaseStats e (Some i) = ([ReqStats i], Inl FetchFailed)"
  using assms by (simp add: discogsReleaseStats_def)

lemma aiNormalize_not_ok:
  assumes "truthy (OPENAI_API_KEY e)" and "fetch_openai e m = Resolved res" and "\<not> ok res"
  shows "aiNormalize e m = ([ReqOpenAI m], Inr m)"
  using assms by (simp add: aiNormalize_def)

text \<open>
  What the code does as the specification says. A search that is answered with a status
  outside 200..299 fails the run, with an error that carries the status and the body, and
  so fails the worker's job. Such an answer to the normalizer leaves the metadata as they
  were and the run goes on. Such an answer to the statistics call, like a candidate without
  an identifier (none, or 0), gives a result with null price fields.
\<close>

theorem failure_propagation:
  "(\<forall>ev1 clean res. aiNormalize e m = (ev1, Inr clean) \<longrightarrow> search_params clean \<noteq> [] \<longrightarrow>
      fetch_search e (search_params clean) = Resolved res \<longrightarrow> \<not> ok res \<longrightarrow>
      estimateFromMetadata e m =
        (ev1 @ [Sleep 150, ReqSearch (search_params clean)],
         Inl (DiscogsSearchError (status res) (body_text res))) \<and>
      (\<forall>(d::db) i rows. select_record d i = Some (m # rows) \<longrightarrow>
         processor e d ''estimate'' i =
           Inl (EstimateFailed (DiscogsSearchError (status res) (body_text res))))) \<and>
   (\<forall>res. truthy (OPENAI_API_KEY e) \<longrightarrow> fetch_openai e m = Resolved res \<longrightarrow> \<not> ok res \<longrightarrow>
      aiNormalize e m = ([ReqOpenAI m], Inr m) \<and> search_input e m = Some m) \<and>
   (\<forall>ev1 clean ev2 srch first. aiNormalize e m = (ev1, Inr clean) \<longrightarrow>
      discogsSearch e clean = (ev2, Inr (Some srch)) \<longrightarrow>
      pick_first srch = Some first \<longrightarrow>
      (cand_id first = None \<or> cand_id first = Some 0 \<or>
       (\<exists>i res. cand_id first = Some i \<and> fetch_stats e i = Resolved res \<and> \<not> ok res)) \<longrightarrow>
      (\<exists>r. snd (estimateFromMetadata e m) = Inr r \<and> lowest_price r = None \<and>
           median_price r = None \<and> estimated_price r = None))"
proof (intro conjI allI impI)
  fix ev1 clean res
  assume n: "aiNormalize e m = (ev1, Inr clean)"
    and "search_params clean \<noteq> []" "fetch_search e (search_params clean) = Resolved res" "\<not> ok res"
  from run_search_failed [OF n discogsSearch_rejected [OF this(2-4)]]
  show run: "estimateFromMetadata e m =
              (ev1 @ [Sleep 150, ReqSearch (search_params clean)],
               Inl (DiscogsSearchError (status res) (body_text res)))"
    by simp
  fix d :: db and i rows
  assume "select_record d i = Some (m # rows)"
  then show "processor e d ''estimate'' i =
           Inl (EstimateFailed (DiscogsSearchError (status res) (body_text res)))"
    by (rule processor_estimate_failed) (simp add: run)
next
  fix res
  assume a: "truthy (OPENAI_API_KEY e)" "fetch_openai e m = Resolved res" "\<not> ok res"
  show "aiNormalize e m = ([ReqOpenAI m], Inr m)"
    by (rule aiNormalize_not_ok [OF a])
  then show "search_input e m = Some m"
    by (simp add: search_input_def)
next
  fix ev1 clean ev2 srch first
  assume n: "aiNormalize e m = (ev1, Inr clean)"
    and s: "discogsSearch e clean = (ev2, Inr (Some srch))" and p: "pick_first srch = Some first"
    and d: "cand_id first = None \<or> cand_id first = Some 0 \<or>
             (\<exists>i res. cand_id first = Some i \<and> fetch_stats e i = Resolved res \<and> \<not> ok res)"
  have "snd (discogsReleaseStats e (cand_id first)) = Inr None"
    by (rule discogsReleaseStats_degraded [OF d])
  then have st: "discogsReleaseStats e (cand_id first) =
      (fst (discogsReleaseStats e (cand_id first)), Inr None)"
    by (metis prod.collapse)
  have l: "lowest_of None = None"
    by (simp add: lowest_of_def)
  from run_matched [OF n s p st]
  show "\<exists>r. snd (estimateFromMetadata e m) = Inr r \<and> lowest_price r = None \<and>
                 median_price r = None \<and> estimated_price r = None"
    by (auto simp: l estimated_of_def)
qed

lemma search_500_norm: "aiNormalize env_search_500 meta_AB = ([], Inr meta_AB)"
  by (simp add: aiNormalize_def env_search_500_def env_scenario_def truthy_def)

lemma stats_down_norm: "aiNormalize env_stats_down meta_AB = ([], Inr meta_AB)"
  by (simp add: aiNormalize_def env_stats_down_def env_scenario_def truthy_def)

lemma stats_down_search:
  "discogsSearch env_stats_down meta_AB =
     ([ReqSearch [(''artist'', ''Artist A''), (''release_title'', ''Title B'')]], Inr (Some search_one))"
  by (simp add: discogsSearch_def scenario_params URLSearchParams_keys_def env_stats_down_def
      env_scenario_def ok_def)

text \<open>The search answers 500; the assistant answers 500; the statistics endpoint
  answers 404.\<close>

theorem failure_propagation_witness:
  "estimateFromMetadata env_search_500 meta_AB =
     ([Sleep 150, ReqSearch [(''artist'', ''Artist A''), (''release_title'', ''Title B'')]],
      Inl (DiscogsSearchError 500 ''Internal Server Error'')) \<and>
   processor env_search_500 db_one ''estimate'' 1 =
     Inl (EstimateFailed (DiscogsSearchError 500 ''Internal Server Error'')) \<and>
   aiNormalize env_openai_500 meta_noisy = ([ReqOpenAI meta_noisy], Inr meta_noisy) \<and>
   (\<exists>r. snd (estimateFromMetadata env_stats_404 meta_AB) = Inr r \<and> lowest_price r = None \<and>
        median_price r = None \<and> estimated_price r = None)"
proof (intro conjI)
  let ?res = "\<lparr>status = 500, body_text = ''Internal Server Error'', json = SyntaxError\<rparr> :: search response"
  have a: "search_params meta_AB \<noteq> []"
    by (simp add: scenario_params)
  have b: "fetch_search env_search_500 (search_params meta_AB) = Resolved ?res"
    by (simp add: env_search_500_def)
  have c: "\<not> ok ?res"
    by (simp add: ok_def)
  from failure_propagation [of env_search_500 meta_AB] search_500_norm a b c
  have "estimateFromMetadata env_search_500 meta_AB =
          ([] @ [Sleep 150, ReqSearch (search_params meta_AB)],
           Inl (DiscogsSearchError (status ?res) (body_text ?res)))"
    by blast
  then show "estimateFromMetadata env_search_500 meta_AB =
     ([Sleep 150, ReqSearch [(''artist'', ''Artist A''), (''release_title'', ''Title B'')]],
      Inl (DiscogsSearchError 500 ''Internal Server Error''))"
    by (simp add: scenario_params)
  have "select_record db_one 1 = Some (meta_AB # [])"
    by (simp add: db_one_def)
  with failure_propagation [of env_search_500 meta_AB] search_500_norm a b c
  have "processor env_search_500 db_one ''estimate'' 1 =
          Inl (EstimateFailed (DiscogsSearchError (status ?res) (body_text ?res)))"
    by blast
  then show "processor env_search_500 db_one ''estimate'' 1 =
     Inl (EstimateFailed (DiscogsSearchError 500 ''Internal Server Error''))"
    by simp
next
  let ?res = "\<lparr>status = 500, body_text = ''Internal Server Error'', json = SyntaxError\<rparr>
      :: chat_completion response"
  have "truthy (OPENAI_API_KEY env_openai_500) \<and>
        fetch_openai env_openai_500 meta_noisy = Resolved ?res \<and> \<not> ok ?res"
    by (simp add: env_openai_500_def env_rewrite_def truthy_def ok_def)
  with failure_propagation [of env_openai_500 meta_noisy]
  show "aiNormalize env_openai_500 meta_noisy = ([ReqOpenAI meta_noisy], Inr meta_noisy)"
    by blast
next
  let ?res = "\<lparr>status = 404, body_text = ''Not found'', json = SyntaxError\<rparr> :: stats response"
  have "cand_id release_42 = Some 42 \<and> fetch_stats env_stats_404 42 = Resolved ?res \<and> \<not> ok ?res"
    by (simp add: release_42_def env_stats_404_def ok_def)
  with failure_propagation [of env_stats_404 meta_AB] stats_404_norm stats_404_search scenario_pick
  show "\<exists>r. snd (estimateFromMetadata env_stats_404 meta_AB) = Inr r \<and> lowest_price r = None \<and>
        median_price r = None \<and> estimated_price r = None"
    by blast
qed

text \<open>
  Claim C4. A search that fails fails the run, and the search is the only step whose
  failure does: a failing statistics call or a candidate without an identifier never fails
  the run and gives a result with null price fields. The code does not do so where the
  statistics request gets no response: \<^verbatim>\<open>fetch\<close> of line 37 rejects,
  \<^verbatim>\<open>discogsReleaseStats\<close> has no \<^verbatim>\<open>try\<close> around it, and so the run fails, and the
  worker's job with it, where the other failures of that call (no identifier, a status
  outside 200..299) return \<^verbatim>\<open>null\<close>.
\<close>

theorem stats_no_response_fails_job:
  "cand_id release_42 = Some 42 \<and> fetch_stats env_stats_down 42 = Rejected \<and>
   estimateFromMetadata env_stats_down meta_AB =
     ([Sleep 150, ReqSearch [(''artist'', ''Artist A''), (''release_title'', ''Title B'')],
       Sleep 150, ReqStats 42],
      Inl FetchFailed) \<and>
   processor env_stats_down db_one ''estimate'' 1 = Inl (EstimateFailed FetchFailed)"
proof -
  have "discogsReleaseStats env_stats_down (cand_id release_42) = ([ReqStats 42], Inl FetchFailed)"
    by (simp add: discogsReleaseStats_def release_42_def env_stats_down_def)
  from run_stats_failed [OF stats_down_norm stats_down_search scenario_pick this]
  have run: "estimateFromMetadata env_stats_down meta_AB =
     ([Sleep 150, ReqSearch [(''artist'', ''Artist A''), (''release_title'', ''Title B'')],
       Sleep 150, ReqStats 42],
      Inl FetchFailed)"
    by simp
  have "processor env_stats_down db_one ''estimate'' 1 = Inl (EstimateFailed FetchFailed)"
    by (rule processor_estimate_failed [where row = meta_AB and rows = "[]"])
      (simp_all add: run db_one_def)
  with run show ?thesis
    by (simp add: release_42_def env_stats_down_def)
qed

section \<open>The enqueue helper\<close>

text \<open>
  Claim C9. Every job that \<^verbatim>\<open>enqueue\<close> adds is added with at most 5 attempts and an
  exponential backoff whose delay is 2000 milliseconds.
\<close>

theorem enqueue_retry_policy:
  "\<exists>opts. (\<forall>add. enqueue add name data = (add name data opts :: 'r)) \<and>
      attempts opts = 5 \<and> backoff_type (backoff opts) = ''exponential'' \<and>
      delay (backoff opts) = 2000"
  unfolding enqueue_def
  by (rule exI [of _ "\<lparr>attempts = 5,
        backoff = \<lparr>backoff_type = ''exponential'', delay = 2000\<rparr>,
        removeOnComplete = \<lparr>age = 3600, count = 5000\<rparr>,
        removeOnFail = \<lparr>age = 86400, count = 1000\<rparr>\<rparr>"]) simp

end
